theory Spec2Isabelle
  imports Main
begin

section \<open>Provisioning the hosted control plane VPC (pkg/openshift/rosa/hcpvpc.go)\<close>

text \<open>
  The file drives an external tool runner through a fixed sequence of calls and turns
  its output into a small struct. The runner, the embedded asset file system and the
  operating system are collaborators whose code is not part of the file: they are
  parameters of the model (record \<open>collab\<close>), one arbitrary outcome per call. Every
  call of a collaborator is written to a trace, so that the order and the number of the
  calls can be stated.
\<close>

subsection \<open>Errors\<close>

text \<open>
  A Go \<open>error\<close> is an interface value. The kinds that occur here:
  \<^item> \<open>ErrorString\<close>: what \<open>errors.New\<close> and \<open>fmt.Errorf\<close> without \<open>%w\<close> build;
  \<^item> \<open>WrapError\<close>: what \<open>fmt.Errorf\<close> with \<open>%w\<close> builds (message and wrapped error);
  \<^item> \<open>HcpVPCError\<close>: the struct \<open>hcpVPCError\<close> (fields \<open>action\<close> and \<open>err\<close>,
    the latter possibly nil).
  A nil error is \<open>None\<close> of \<open>error option\<close>.
\<close>

datatype error =
    ErrorString string
  | WrapError string error
  | HcpVPCError (action: string) (err: "error option")

text \<open>The method \<open>Error()\<close>; the verb \<open>%v\<close> prints a nil error as \<open><nil>\<close>.\<close>

fun Error :: "error \<Rightarrow> string" where
  "Error (ErrorString s) = s"
| "Error (WrapError msg e) = msg"
| "Error (HcpVPCError a e) =
     a @ '' hcp cluster vpc failed: '' @ (case e of None \<Rightarrow> ''<nil>'' | Some c \<Rightarrow> Error c)"

definition errors_New :: "string \<Rightarrow> error" where
  "errors_New s = ErrorString s"

text \<open>\<open>fmt.Errorf(prefix + "%v", e)\<close> for a non-nil \<open>e\<close>.\<close>

definition Errorf_v :: "string \<Rightarrow> error \<Rightarrow> error" where
  "Errorf_v prefix e = ErrorString (prefix @ Error e)"

text \<open>\<open>fmt.Errorf(prefix + "%w", e)\<close> for a non-nil \<open>e\<close>.\<close>

definition Errorf_w :: "string \<Rightarrow> error \<Rightarrow> error" where
  "Errorf_w prefix e = WrapError (prefix @ Error e) e"

text \<open>
  \<open>errors.Unwrap\<close>: only the error built with \<open>%w\<close> has an \<open>Unwrap\<close> method; the type
  \<open>hcpVPCError\<close> declares \<open>Error\<close> alone.
\<close>

fun Unwrap :: "error \<Rightarrow> error option" where
  "Unwrap (ErrorString s) = None"
| "Unwrap (WrapError msg e) = Some e"
| "Unwrap (HcpVPCError a e) = None"

text \<open>
  \<open>errors.Is\<close>: the target is the error itself or is reached by unwrapping it. Go
  compares the interface values, the model the values as data, which holds of more pairs.
\<close>

fun errors_Is :: "error \<Rightarrow> error \<Rightarrow> bool" where
  "errors_Is (ErrorString s) target = (ErrorString s = target)"
| "errors_Is (WrapError msg e) target = (WrapError msg e = target \<or> errors_Is e target)"
| "errors_Is (HcpVPCError a e) target = (HcpVPCError a e = target)"

subsection \<open>Data\<close>

record vpc =
  privateSubnet :: string
  publicSubnet :: string
  nodePrivateSubnet :: string

text \<open>\<open>tfexec.OutputMeta\<close>; the three fields are its Go fields, \<open>Value\<close> a byte string.\<close>

record OutputMeta =
  Sensitive :: bool
  Type :: string
  Value :: string

definition zero_OutputMeta :: OutputMeta where
  "zero_OutputMeta = \<lparr>Sensitive = False, Type = [], Value = []\<rparr>"

text \<open>Indexing a Go map: a missing key (and a nil map) gives the zero value.\<close>

definition index_map :: "(string \<rightharpoonup> OutputMeta) \<Rightarrow> string \<Rightarrow> OutputMeta" where
  "index_map m k = (case m k of None \<Rightarrow> zero_OutputMeta | Some v \<Rightarrow> v)"

datatype tfexec_option = Var string

text \<open>The receiver: of \<open>Provider\<close> only the credentials map is read.\<close>

record Provider =
  awsCredentials :: "string \<rightharpoonup> string"

subsection \<open>The collaborators and the world\<close>

datatype event =
    E_New string
  | E_SetEnvVars "string \<rightharpoonup> string"
  | E_LogInfo string
  | E_FS_Open string
  | E_os_Create string
  | E_io_Copy string string
  | E_Close string
  | E_Init
  | E_Plan "tfexec_option list"
  | E_Apply
  | E_Output
  | E_Destroy "tfexec_option list"
  | E_Uninstall

record collab =
  New_err :: "string \<Rightarrow> error option"
  SetEnvVars_err :: "(string \<rightharpoonup> string) \<Rightarrow> error option"
  Init_err :: "error option"
  Plan_err :: "tfexec_option list \<Rightarrow> error option"
  Apply_err :: "error option"
  Output_res :: "(string \<rightharpoonup> OutputMeta) \<times> error option"
  Destroy_err :: "tfexec_option list \<Rightarrow> error option"
  Uninstall_err :: "error option"
  FS_Open :: "string \<Rightarrow> error + string"
  os_Create_err :: "string \<Rightarrow> error option"
  io_Copy_fault :: "(nat \<times> error) option"

record world =
  files :: "string \<rightharpoonup> string"
  trace :: "event list"

definition emit :: "event \<Rightarrow> world \<Rightarrow> world" where
  "emit e w = w\<lparr>trace := trace w @ [e]\<rparr>"

definition write_file :: "string \<Rightarrow> string \<Rightarrow> world \<Rightarrow> world" where
  "write_file p bs w = w\<lparr>files := (files w)(p \<mapsto> bs)\<rparr>"

subsection \<open>strings.ReplaceAll\<close>

text \<open>
  Non-overlapping occurrences of \<open>old\<close> are replaced from the left. For an empty
  \<open>old\<close> Go inserts \<open>new\<close> before every rune and at the end; the model does so
  before every byte, which is the same on ASCII text. The file only calls it with the
  one-byte \<open>old\<close> that is the double quote.
\<close>

function ReplaceAll :: "string \<Rightarrow> string \<Rightarrow> string \<Rightarrow> string" where
  "ReplaceAll s old new =
     (if old = [] then new @ concat (map (\<lambda>c. c # new) s)
      else if s = [] then []
      else if take (length old) s = old then new @ ReplaceAll (drop (length old) s) old new
      else hd s # ReplaceAll (tl s) old new)"
  by pat_completeness auto
termination
  by (relation "measure (\<lambda>(s, old, new). length s)") auto

definition quote :: string where
  "quote = [CHR 0x22]"

subsection \<open>copyFile\<close>

text \<open>
  The two deferred \<open>Close\<close> calls run in reverse order of their registration when the
  function returns. \<open>os.Create\<close> truncates the file; \<open>io.Copy\<close> writes all of the
  source, or on a fault only its first \<open>n\<close> bytes.
\<close>

definition copyFile :: "collab \<Rightarrow> string \<Rightarrow> string \<Rightarrow> world \<Rightarrow> error option \<times> world" where
  "copyFile c srcFile destFile w =
     (let w1 = emit (E_FS_Open srcFile) w in
      case FS_Open c srcFile of
        Inl e \<Rightarrow> (Some (Errorf_w (''error opening '' @ srcFile @ '' file: '') e), w1)
      | Inr content \<Rightarrow>
          (let w2 = emit (E_os_Create destFile) w1 in
           case os_Create_err c destFile of
             Some e \<Rightarrow>
               (Some (Errorf_w (''error creating runtime '' @ destFile @ '' file: '') e),
                emit (E_Close srcFile) w2)
           | None \<Rightarrow>
               (let w3 = emit (E_io_Copy destFile srcFile) (write_file destFile [] w2) in
                case io_Copy_fault c of
                  Some (n, e) \<Rightarrow>
                    (Some (Errorf_w ''error copying source file to destination file: '' e),
                     emit (E_Close srcFile)
                       (emit (E_Close destFile) (write_file destFile (take n content) w3)))
                | None \<Rightarrow>
                    (None,
                     emit (E_Close srcFile)
                       (emit (E_Close destFile) (write_file destFile content w3))))))"

subsection \<open>createHostedControlPlaneVPC\<close>

text \<open>The part of the function after the \<open>defer\<close> statement (lines 78 to 115).\<close>

definition create_body ::
  "collab \<Rightarrow> string \<Rightarrow> string \<Rightarrow> string \<Rightarrow> string \<Rightarrow> world
     \<Rightarrow> (vpc option \<times> error option) \<times> world" where
  "create_body c act clusterName awsRegion workingDir w =
     (let w1 = emit (E_LogInfo ''Creating aws vpc'') w;
          (cerr, w2) = copyFile c ''assets/setup-hcp-vpc.tf'' (workingDir @ ''/setup-hcp-vpc.tf'') w1
      in case cerr of
        Some e \<Rightarrow>
          ((None, Some (HcpVPCError act
             (Some (Errorf_v ''failed to copy terraform file to working directory: '' e)))), w2)
      | None \<Rightarrow>
          (let w3 = emit E_Init w2 in
           case Init_err c of
             Some e \<Rightarrow>
               ((None, Some (HcpVPCError act
                  (Some (Errorf_v ''failed to perform terraform init: '' e)))), w3)
           | None \<Rightarrow>
               (let vars = [Var (''aws_region='' @ awsRegion), Var (''cluster_name='' @ clusterName)];
                    w4 = emit (E_Plan vars) w3 in
                case Plan_err c vars of
                  Some e \<Rightarrow>
                    ((None, Some (HcpVPCError act
                       (Some (Errorf_v ''failed to perform terraform plan: '' e)))), w4)
                | None \<Rightarrow>
                    (let w5 = emit E_Apply w4 in
                     case Apply_err c of
                       Some e \<Rightarrow>
                         ((None, Some (HcpVPCError act
                            (Some (Errorf_v ''failed to perform terraform apply: '' e)))), w5)
                     | None \<Rightarrow>
                         (let w6 = emit E_Output w5;
                              (output, oerr) = Output_res c in
                          case oerr of
                            Some e \<Rightarrow>
                              ((None, Some (HcpVPCError act
                                 (Some (Errorf_v ''failed to perform terraform output: '' e)))), w6)
                          | None \<Rightarrow>
                              (let v = \<lparr>privateSubnet =
                                          ReplaceAll (Value (index_map output ''cluster-private-subnet'')) quote [],
                                        publicSubnet =
                                          ReplaceAll (Value (index_map output ''cluster-public-subnet'')) quote [],
                                        nodePrivateSubnet =
                                          ReplaceAll (Value (index_map output ''node-private-subnet'')) quote []\<rparr>;
                                   w7 = emit (E_LogInfo ''AWS vpc created!'') w6
                               in ((Some v, oerr), w7)))))))"

text \<open>The deferred function: \<open>_ = tf.Uninstall(ctx)\<close>. Its result is dropped.\<close>

definition deferred_Uninstall :: "collab \<Rightarrow> world \<Rightarrow> world" where
  "deferred_Uninstall c w = snd (Uninstall_err c, emit E_Uninstall w)"

definition createHostedControlPlaneVPC ::
  "collab \<Rightarrow> Provider \<Rightarrow> string \<Rightarrow> string \<Rightarrow> string \<Rightarrow> world
     \<Rightarrow> (vpc option \<times> error option) \<times> world" where
  "createHostedControlPlaneVPC c r clusterName awsRegion workingDir w =
     (let act = ''create'' in
      if clusterName = [] \<or> awsRegion = [] \<or> workingDir = [] then
        ((None, Some (HcpVPCError act (Some (errors_New ''one or more parameters is empty'')))), w)
      else
        (let w1 = emit (E_New workingDir) w in
         case New_err c workingDir of
           Some e \<Rightarrow>
             ((None, Some (HcpVPCError act
                (Some (Errorf_v ''failed to construct terraform runner: '' e)))), w1)
         | None \<Rightarrow>
             (let w2 = emit (E_SetEnvVars (awsCredentials r)) w1 in
              case SetEnvVars_err c (awsCredentials r) of
                Some e \<Rightarrow>
                  ((None, Some (HcpVPCError act
                     (Some (Errorf_v ''failed to set terraform runner aws credentials (env vars): '' e)))),
                   w2)
              | None \<Rightarrow>
                  (let (res, w3) = create_body c act clusterName awsRegion workingDir w2
                   in (res, deferred_Uninstall c w3)))))"

subsection \<open>deleteHostedControlPlaneVPC\<close>

text \<open>The part of the function after the \<open>defer\<close> statement (lines 139 to 157).\<close>

definition delete_body ::
  "collab \<Rightarrow> string \<Rightarrow> string \<Rightarrow> string \<Rightarrow> string \<Rightarrow> world \<Rightarrow> error option \<times> world" where
  "delete_body c act clusterName awsRegion workingDir w =
     (let w1 = emit (E_LogInfo ''Deleting aws vpc'') w;
          w2 = emit E_Init w1 in
      case Init_err c of
        Some e \<Rightarrow>
          (Some (HcpVPCError act (Some (Errorf_v ''failed to perform terraform init: '' e))), w2)
      | None \<Rightarrow>
          (let vars = [Var (''aws_region='' @ awsRegion), Var (''cluster_name='' @ clusterName)];
               w3 = emit (E_Destroy vars) w2;
               derr = Destroy_err c vars in
           case derr of
             Some e \<Rightarrow>
               (Some (HcpVPCError act
                  (Some (Errorf_v ''failed to perform terraform destroy: '' e))), w3)
           | None \<Rightarrow> (derr, emit (E_LogInfo ''AWS vpc deleted!'') w3)))"

definition deleteHostedControlPlaneVPC ::
  "collab \<Rightarrow> Provider \<Rightarrow> string \<Rightarrow> string \<Rightarrow> string \<Rightarrow> world \<Rightarrow> error option \<times> world" where
  "deleteHostedControlPlaneVPC c r clusterName awsRegion workingDir w =
     (let act = ''delete'' in
      if clusterName = [] \<or> awsRegion = [] \<or> workingDir = [] then
        (Some (HcpVPCError act (Some (errors_New ''one or more parameters is empty''))), w)
      else
        (let w1 = emit (E_New workingDir) w in
         case New_err c workingDir of
           Some e \<Rightarrow>
             (Some (HcpVPCError act
                (Some (Errorf_v ''failed to construct terraform runner: '' e))), w1)
         | None \<Rightarrow>
             (let w2 = emit (E_SetEnvVars (awsCredentials r)) w1 in
              case SetEnvVars_err c (awsCredentials r) of
                Some e \<Rightarrow>
                  (Some (HcpVPCError act
                     (Some (Errorf_v ''failed to set terraform runner aws credentials (env vars): '' e))),
                   w2)
              | None \<Rightarrow>
                  (let (res, w3) = delete_body c act clusterName awsRegion workingDir w2
                   in (res, deferred_Uninstall c w3)))))"

subsection \<open>Vocabulary of the statements\<close>

text \<open>The events of one complete run of \<open>copyFile\<close>, in order.\<close>

definition copy_events :: "string \<Rightarrow> string \<Rightarrow> event list" where
  "copy_events srcFile destFile =
     [E_FS_Open srcFile, E_os_Create destFile, E_io_Copy destFile srcFile,
      E_Close destFile, E_Close srcFile]"

fun is_file_event :: "event \<Rightarrow> bool" where
  "is_file_event (E_FS_Open p) = True"
| "is_file_event (E_os_Create p) = True"
| "is_file_event (E_io_Copy p q) = True"
| "is_file_event (E_Close p) = True"
| "is_file_event e = False"

text \<open>The runner was constructed and took the credentials.\<close>

definition runner_ready :: "collab \<Rightarrow> Provider \<Rightarrow> string \<Rightarrow> bool" where
  "runner_ready c r workingDir \<longleftrightarrow>
     New_err c workingDir = None \<and> SetEnvVars_err c (awsCredentials r) = None"

text \<open>Every part of the template copy succeeds, the asset holding \<open>content\<close>.\<close>

definition template_copied :: "collab \<Rightarrow> string \<Rightarrow> string \<Rightarrow> bool" where
  "template_copied c workingDir content \<longleftrightarrow>
     FS_Open c ''assets/setup-hcp-vpc.tf'' = Inr content \<and>
     os_Create_err c (workingDir @ ''/setup-hcp-vpc.tf'') = None \<and>
     io_Copy_fault c = None"

text \<open>The two variables handed to the plan and destroy steps.\<close>

definition region_and_name :: "string \<Rightarrow> string \<Rightarrow> tfexec_option list" where
  "region_and_name awsRegion clusterName =
     [Var (''aws_region='' @ awsRegion), Var (''cluster_name='' @ clusterName)]"

text \<open>The tagged error with a cause whose message is \<open>prefix\<close> followed by that of \<open>e\<close>.\<close>

definition tagged :: "string \<Rightarrow> string \<Rightarrow> error \<Rightarrow> error" where
  "tagged act prefix e = HcpVPCError act (Some (ErrorString (prefix @ Error e)))"

definition empty_parameter_error :: "string \<Rightarrow> error" where
  "empty_parameter_error act =
     HcpVPCError act (Some (ErrorString ''one or more parameters is empty''))"

text \<open>All occurrences of the double quote removed.\<close>

definition unquoted :: "string \<Rightarrow> string" where
  "unquoted s = filter (\<lambda>ch. ch \<noteq> CHR 0x22) s"

subsection \<open>A test double\<close>

text \<open>
  A runner on which every step succeeds and whose output step gives the three quoted
  subnets; the asset file system holds the template only.
\<close>

definition quoted_output :: "string \<Rightarrow> OutputMeta" where
  "quoted_output s = \<lparr>Sensitive = False, Type = quote @ ''string'' @ quote, Value = quote @ s @ quote\<rparr>"

definition mock_output :: "string \<rightharpoonup> OutputMeta" where
  "mock_output =
     [''cluster-private-subnet'' \<mapsto> quoted_output ''10.0.1.0/24'',
      ''cluster-public-subnet'' \<mapsto> quoted_output ''10.0.2.0/24'',
      ''node-private-subnet'' \<mapsto> quoted_output ''10.0.3.0/24'']"

definition mock :: collab where
  "mock =
     \<lparr>New_err = (\<lambda>d. None), SetEnvVars_err = (\<lambda>m. None), Init_err = None,
      Plan_err = (\<lambda>vs. None), Apply_err = None, Output_res = (mock_output, None),
      Destroy_err = (\<lambda>vs. None), Uninstall_err = None,
      FS_Open = (\<lambda>p. if p = ''assets/setup-hcp-vpc.tf'' then Inr ''resource vpc''
                       else Inl (ErrorString ''file does not exist'')),
      os_Create_err = (\<lambda>p. None), io_Copy_fault = None\<rparr>"

definition provider0 :: Provider where
  "provider0 = \<lparr>awsCredentials = [''AWS_REGION'' \<mapsto> ''us-east-1'']\<rparr>"

definition world0 :: world where
  "world0 = \<lparr>files = Map.empty, trace = []\<rparr>"

definition boom :: error where
  "boom = ErrorString ''boom''"

text \<open>
  The same runner with an output that lacks two of the three keys; the value that is
  left has a quote in its middle as well.
\<close>

definition mock_partial :: collab where
  "mock_partial =
     mock\<lparr>Output_res :=
       ([''cluster-private-subnet'' \<mapsto>
           \<lparr>Sensitive = False, Type = [], Value = quote @ ''10.0'' @ quote @ ''.1.0/24'' @ quote\<rparr>],
        None)\<rparr>"

section \<open>Properties\<close>

subsection \<open>Auxiliary facts\<close>

declare ReplaceAll.simps [simp del]

lemma ReplaceAll_single_empty: "ReplaceAll s [q] [] = filter (\<lambda>ch. ch \<noteq> q) s"
proof (induction s)
  case Nil
  show ?case by (simp add: ReplaceAll.simps [of "[]"])
next
  case (Cons a s)
  have "ReplaceAll (a # s) [q] [] = (if a = q then ReplaceAll s [q] [] else a # ReplaceAll s [q] [])"
    by (subst ReplaceAll.simps) simp
  with Cons show ?case by simp
qed

lemma ReplaceAll_quote: "ReplaceAll s quote [] = unquoted s"
  by (simp add: quote_def unquoted_def ReplaceAll_single_empty)

lemma copyFile_success:
  "FS_Open c s = Inr content \<Longrightarrow> os_Create_err c d = None \<Longrightarrow> io_Copy_fault c = None \<Longrightarrow>
   copyFile c s d w =
     (None, w\<lparr>files := (files w)(d \<mapsto> content), trace := trace w @ copy_events s d\<rparr>)"
  by (simp add: copyFile_def Let_def emit_def write_file_def copy_events_def)

lemma copyFile_None_iff:
  "fst (copyFile c s d w) = None \<longleftrightarrow>
     (\<exists>content. FS_Open c s = Inr content) \<and> os_Create_err c d = None \<and> io_Copy_fault c = None"
  by (auto simp add: copyFile_def Let_def split: sum.splits option.splits prod.splits)

lemma copyFile_trace:
  "\<exists>es. trace (snd (copyFile c s d w)) = trace w @ es \<and> list_all is_file_event es"
  by (auto simp add: copyFile_def Let_def emit_def write_file_def
      split: sum.splits option.splits prod.splits)

lemma deferred_Uninstall_eq: "deferred_Uninstall c w = emit E_Uninstall w"
  by (simp add: deferred_Uninstall_def)

lemma create_body_tagged:
  "create_body c act cn rg wd w = ((v, Some e), w') \<Longrightarrow> \<exists>cause. e = HcpVPCError act (Some cause)"
  by (auto simp add: create_body_def Let_def split: option.splits prod.splits)

lemma delete_body_tagged:
  "delete_body c act cn rg wd w = (Some e, w') \<Longrightarrow> \<exists>cause. e = HcpVPCError act (Some cause)"
  by (auto simp add: delete_body_def Let_def split: option.splits prod.splits)

lemma create_tagged:
  "snd (fst (createHostedControlPlaneVPC c r cn rg wd w)) = Some e \<Longrightarrow>
   \<exists>cause. e = HcpVPCError ''create'' (Some cause)"
  by (auto simp add: createHostedControlPlaneVPC_def Let_def
      split: option.splits prod.splits if_splits dest: create_body_tagged)

lemma delete_tagged:
  "fst (deleteHostedControlPlaneVPC c r cn rg wd w) = Some e \<Longrightarrow>
   \<exists>cause. e = HcpVPCError ''delete'' (Some cause)"
  by (auto simp add: deleteHostedControlPlaneVPC_def Let_def
      split: option.splits prod.splits if_splits dest: delete_body_tagged)

lemma create_body_success_iff:
  "snd (fst (create_body c act cn rg wd w)) = None \<longleftrightarrow>
     (\<exists>content. template_copied c wd content) \<and> Init_err c = None \<and>
     Plan_err c (region_and_name rg cn) = None \<and> Apply_err c = None \<and> snd (Output_res c) = None"
proof -
  obtain cerr w2 where cp:
    "copyFile c ''assets/setup-hcp-vpc.tf'' (wd @ ''/setup-hcp-vpc.tf'')
       (emit (E_LogInfo ''Creating aws vpc'') w) = (cerr, w2)"
    by (cases "copyFile c ''assets/setup-hcp-vpc.tf'' (wd @ ''/setup-hcp-vpc.tf'')
       (emit (E_LogInfo ''Creating aws vpc'') w)")
  have "cerr = None \<longleftrightarrow> (\<exists>content. template_copied c wd content)"
    using copyFile_None_iff [of c "''assets/setup-hcp-vpc.tf''" "wd @ ''/setup-hcp-vpc.tf''"
        "emit (E_LogInfo ''Creating aws vpc'') w"] cp
    by (simp add: template_copied_def)
  then show ?thesis
    by (auto simp add: create_body_def Let_def cp region_and_name_def
        split: option.splits prod.splits)
qed

lemma create_body_success_run:
  assumes "template_copied c wd content" "Init_err c = None"
    "Plan_err c (region_and_name rg cn) = None" "Apply_err c = None" "snd (Output_res c) = None"
  shows "create_body c act cn rg wd w =
     ((Some \<lparr>privateSubnet = unquoted (Value (index_map (fst (Output_res c)) ''cluster-private-subnet'')),
             publicSubnet = unquoted (Value (index_map (fst (Output_res c)) ''cluster-public-subnet'')),
             nodePrivateSubnet = unquoted (Value (index_map (fst (Output_res c)) ''node-private-subnet''))\<rparr>,
       None),
      w\<lparr>files := (files w)(wd @ ''/setup-hcp-vpc.tf'' \<mapsto> content),
        trace := trace w @ [E_LogInfo ''Creating aws vpc'']
          @ copy_events ''assets/setup-hcp-vpc.tf'' (wd @ ''/setup-hcp-vpc.tf'')
          @ [E_Init, E_Plan (region_and_name rg cn), E_Apply, E_Output,
             E_LogInfo ''AWS vpc created!'']\<rparr>)"
proof -
  have cp: "copyFile c ''assets/setup-hcp-vpc.tf'' (wd @ ''/setup-hcp-vpc.tf'')
       (emit (E_LogInfo ''Creating aws vpc'') w) =
     (None, (emit (E_LogInfo ''Creating aws vpc'') w)
        \<lparr>files := (files (emit (E_LogInfo ''Creating aws vpc'') w))(wd @ ''/setup-hcp-vpc.tf'' \<mapsto> content),
         trace := trace (emit (E_LogInfo ''Creating aws vpc'') w)
            @ copy_events ''assets/setup-hcp-vpc.tf'' (wd @ ''/setup-hcp-vpc.tf'')\<rparr>)"
    using assms(1) by (intro copyFile_success) (simp_all add: template_copied_def)
  obtain out oerr where o: "Output_res c = (out, oerr)" by (cases "Output_res c")
  with assms(5) have oe: "oerr = None" by simp
  have "create_body c act cn rg wd w =
     ((Some \<lparr>privateSubnet = unquoted (Value (index_map out ''cluster-private-subnet'')),
             publicSubnet = unquoted (Value (index_map out ''cluster-public-subnet'')),
             nodePrivateSubnet = unquoted (Value (index_map out ''node-private-subnet''))\<rparr>,
       None),
      emit (E_LogInfo ''AWS vpc created!'') (emit E_Output (emit E_Apply
        (emit (E_Plan (region_and_name rg cn)) (emit E_Init
          ((emit (E_LogInfo ''Creating aws vpc'') w)
            \<lparr>files := (files (emit (E_LogInfo ''Creating aws vpc'') w))(wd @ ''/setup-hcp-vpc.tf'' \<mapsto> content),
             trace := trace (emit (E_LogInfo ''Creating aws vpc'') w)
               @ copy_events ''assets/setup-hcp-vpc.tf'' (wd @ ''/setup-hcp-vpc.tf'')\<rparr>))))))"
    using assms(2-4)
    by (simp add: create_body_def Let_def cp o oe ReplaceAll_quote region_and_name_def)
  then show ?thesis
    by (simp add: emit_def o)
qed

lemma create_success_iff:
  "snd (fst (createHostedControlPlaneVPC c r cn rg wd w)) = None \<longleftrightarrow>
     cn \<noteq> [] \<and> rg \<noteq> [] \<and> wd \<noteq> [] \<and> runner_ready c r wd \<and>
     (\<exists>content. template_copied c wd content) \<and> Init_err c = None \<and>
     Plan_err c (region_and_name rg cn) = None \<and> Apply_err c = None \<and> snd (Output_res c) = None"
proof (cases "cn \<noteq> [] \<and> rg \<noteq> [] \<and> wd \<noteq> [] \<and> runner_ready c r wd")
  case True
  then have "snd (fst (createHostedControlPlaneVPC c r cn rg wd w)) =
    snd (fst (create_body c ''create'' cn rg wd
       (emit (E_SetEnvVars (awsCredentials r)) (emit (E_New wd) w))))"
    by (simp add: createHostedControlPlaneVPC_def runner_ready_def Let_def split: prod.splits)
  with True show ?thesis by (simp add: create_body_success_iff)
next
  case False
  then show ?thesis
    by (auto simp add: createHostedControlPlaneVPC_def runner_ready_def Let_def
        split: option.splits)
qed

lemma create_success_run:
  assumes "cn \<noteq> []" "rg \<noteq> []" "wd \<noteq> []" "runner_ready c r wd"
    "template_copied c wd content" "Init_err c = None"
    "Plan_err c (region_and_name rg cn) = None" "Apply_err c = None" "snd (Output_res c) = None"
  shows "createHostedControlPlaneVPC c r cn rg wd w =
     ((Some \<lparr>privateSubnet = unquoted (Value (index_map (fst (Output_res c)) ''cluster-private-subnet'')),
             publicSubnet = unquoted (Value (index_map (fst (Output_res c)) ''cluster-public-subnet'')),
             nodePrivateSubnet = unquoted (Value (index_map (fst (Output_res c)) ''node-private-subnet''))\<rparr>,
       None),
      w\<lparr>files := (files w)(wd @ ''/setup-hcp-vpc.tf'' \<mapsto> content),
        trace := trace w @ [E_New wd, E_SetEnvVars (awsCredentials r), E_LogInfo ''Creating aws vpc'']
          @ copy_events ''assets/setup-hcp-vpc.tf'' (wd @ ''/setup-hcp-vpc.tf'')
          @ [E_Init, E_Plan (region_and_name rg cn), E_Apply, E_Output,
             E_LogInfo ''AWS vpc created!'', E_Uninstall]\<rparr>)"
proof -
  have "createHostedControlPlaneVPC c r cn rg wd w =
    (fst (create_body c ''create'' cn rg wd
       (emit (E_SetEnvVars (awsCredentials r)) (emit (E_New wd) w))),
     emit E_Uninstall (snd (create_body c ''create'' cn rg wd
       (emit (E_SetEnvVars (awsCredentials r)) (emit (E_New wd) w)))))"
    using assms(1-4)
    by (simp add: createHostedControlPlaneVPC_def runner_ready_def Let_def
        deferred_Uninstall_eq split: prod.splits)
  then show ?thesis
    by (simp add: create_body_success_run [OF assms(5-9)] emit_def)
qed

lemma copyFile_Uninstall_err:
  "copyFile (c\<lparr>Uninstall_err := u\<rparr>) s d w = copyFile c s d w"
  by (simp add: copyFile_def Let_def cong: sum.case_cong option.case_cong prod.case_cong)

lemma create_body_Uninstall_err:
  "create_body (c\<lparr>Uninstall_err := u\<rparr>) act cn rg wd w = create_body c act cn rg wd w"
  by (simp add: create_body_def Let_def copyFile_Uninstall_err
      cong: sum.case_cong option.case_cong prod.case_cong)

lemma delete_body_Uninstall_err:
  "delete_body (c\<lparr>Uninstall_err := u\<rparr>) act cn rg wd w = delete_body c act cn rg wd w"
  by (simp add: delete_body_def Let_def cong: sum.case_cong option.case_cong prod.case_cong)

lemma create_after_ready:
  assumes "cn \<noteq> []" "rg \<noteq> []" "wd \<noteq> []" "runner_ready c r wd"
  shows "createHostedControlPlaneVPC c r cn rg wd w =
    (fst (create_body c ''create'' cn rg wd
       (emit (E_SetEnvVars (awsCredentials r)) (emit (E_New wd) w))),
     emit E_Uninstall (snd (create_body c ''create'' cn rg wd
       (emit (E_SetEnvVars (awsCredentials r)) (emit (E_New wd) w)))))"
  using assms
  by (simp add: createHostedControlPlaneVPC_def runner_ready_def Let_def
      deferred_Uninstall_eq split: prod.splits)

lemma delete_after_ready:
  assumes "cn \<noteq> []" "rg \<noteq> []" "wd \<noteq> []" "runner_ready c r wd"
  shows "deleteHostedControlPlaneVPC c r cn rg wd w =
    (fst (delete_body c ''delete'' cn rg wd
       (emit (E_SetEnvVars (awsCredentials r)) (emit (E_New wd) w))),
     emit E_Uninstall (snd (delete_body c ''delete'' cn rg wd
       (emit (E_SetEnvVars (awsCredentials r)) (emit (E_New wd) w)))))"
  using assms
  by (simp add: deleteHostedControlPlaneVPC_def runner_ready_def Let_def
      deferred_Uninstall_eq split: prod.splits)

lemma create_body_copy_failed:
  assumes "copyFile c ''assets/setup-hcp-vpc.tf'' (wd @ ''/setup-hcp-vpc.tf'')
       (emit (E_LogInfo ''Creating aws vpc'') w) = (Some e, wc)"
  shows "create_body c act cn rg wd w =
     ((None, Some (tagged act ''failed to copy terraform file to working directory: '' e)), wc)"
  by (simp add: create_body_def Let_def assms tagged_def Errorf_v_def)

text \<open>The body once the template is in place: the four steps of the tool.\<close>

lemma create_body_after_copy:
  assumes "template_copied c wd content"
  shows "create_body c act cn rg wd w =
     (let wc = w\<lparr>files := (files w)(wd @ ''/setup-hcp-vpc.tf'' \<mapsto> content),
                 trace := trace w @ E_LogInfo ''Creating aws vpc''
                   # copy_events ''assets/setup-hcp-vpc.tf'' (wd @ ''/setup-hcp-vpc.tf'')\<rparr>
      in case Init_err c of
        Some e \<Rightarrow> ((None, Some (tagged act ''failed to perform terraform init: '' e)),
                   wc\<lparr>trace := trace wc @ [E_Init]\<rparr>)
      | None \<Rightarrow>
        (case Plan_err c (region_and_name rg cn) of
          Some e \<Rightarrow> ((None, Some (tagged act ''failed to perform terraform plan: '' e)),
                     wc\<lparr>trace := trace wc @ [E_Init, E_Plan (region_and_name rg cn)]\<rparr>)
        | None \<Rightarrow>
          (case Apply_err c of
            Some e \<Rightarrow> ((None, Some (tagged act ''failed to perform terraform apply: '' e)),
                       wc\<lparr>trace := trace wc @ [E_Init, E_Plan (region_and_name rg cn), E_Apply]\<rparr>)
          | None \<Rightarrow>
            (case snd (Output_res c) of
              Some e \<Rightarrow> ((None, Some (tagged act ''failed to perform terraform output: '' e)),
                         wc\<lparr>trace := trace wc @ [E_Init, E_Plan (region_and_name rg cn), E_Apply,
                                                 E_Output]\<rparr>)
            | None \<Rightarrow> create_body c act cn rg wd w))))"
proof -
  have cp: "copyFile c ''assets/setup-hcp-vpc.tf'' (wd @ ''/setup-hcp-vpc.tf'')
       (w\<lparr>trace := trace w @ [E_LogInfo ''Creating aws vpc'']\<rparr>) =
     (None, w\<lparr>files := (files w)(wd @ ''/setup-hcp-vpc.tf'' \<mapsto> content),
         trace := trace w @ E_LogInfo ''Creating aws vpc''
            # copy_events ''assets/setup-hcp-vpc.tf'' (wd @ ''/setup-hcp-vpc.tf'')\<rparr>)"
    using assms
      copyFile_success [of c "''assets/setup-hcp-vpc.tf''" content "wd @ ''/setup-hcp-vpc.tf''"
        "w\<lparr>trace := trace w @ [E_LogInfo ''Creating aws vpc'']\<rparr>"]
    by (simp add: template_copied_def)
  obtain out oerr where o: "Output_res c = (out, oerr)" by (cases "Output_res c")
  show ?thesis
  proof (cases "Init_err c")
    case (Some e)
    then show ?thesis
      by (simp add: create_body_def Let_def cp tagged_def Errorf_v_def emit_def)
  next
    case i: None
    show ?thesis
    proof (cases "Plan_err c (region_and_name rg cn)")
      case (Some e)
      then show ?thesis using i
        by (simp add: create_body_def Let_def cp tagged_def Errorf_v_def emit_def
            region_and_name_def)
    next
      case p: None
      show ?thesis
      proof (cases "Apply_err c")
        case (Some e)
        then show ?thesis using i p
          by (simp add: create_body_def Let_def cp tagged_def Errorf_v_def emit_def
              region_and_name_def)
      next
        case a: None
        show ?thesis
        proof (cases oerr)
          case (Some e)
          then show ?thesis using i p a
            by (simp add: create_body_def Let_def cp o tagged_def Errorf_v_def emit_def
                region_and_name_def)
        next
          case None
          then show ?thesis using i p a by (simp add: o Let_def)
        qed
      qed
    qed
  qed
qed


lemma file_event_not_Uninstall: "list_all is_file_event es \<Longrightarrow> E_Uninstall \<notin> set es"
  by (auto simp add: list_all_iff)

lemma create_body_trace:
  "\<exists>es. trace (snd (create_body c act cn rg wd w)) = trace w @ es \<and> E_Uninstall \<notin> set es"
proof -
  obtain cerr wc where cp:
    "copyFile c ''assets/setup-hcp-vpc.tf'' (wd @ ''/setup-hcp-vpc.tf'')
       (w\<lparr>trace := trace w @ [E_LogInfo ''Creating aws vpc'']\<rparr>) = (cerr, wc)"
    by (cases "copyFile c ''assets/setup-hcp-vpc.tf'' (wd @ ''/setup-hcp-vpc.tf'')
       (w\<lparr>trace := trace w @ [E_LogInfo ''Creating aws vpc'']\<rparr>)")
  obtain es where es: "trace wc = trace w @ E_LogInfo ''Creating aws vpc'' # es"
    "list_all is_file_event es"
    using copyFile_trace [of c "''assets/setup-hcp-vpc.tf''" "wd @ ''/setup-hcp-vpc.tf''"
        "w\<lparr>trace := trace w @ [E_LogInfo ''Creating aws vpc'']\<rparr>"] cp
    by auto
  from es(2) have "E_Uninstall \<notin> set es" by (rule file_event_not_Uninstall)
  then show ?thesis
    by (auto simp add: create_body_def Let_def emit_def cp es(1)
        split: option.splits prod.splits)
qed

lemma delete_body_trace:
  "\<exists>es. trace (snd (delete_body c act cn rg wd w)) = trace w @ es \<and> E_Uninstall \<notin> set es"
  by (auto simp add: delete_body_def Let_def emit_def split: option.splits prod.splits)

lemma mock_success:
  "''c1'' \<noteq> [] \<and> ''us-east-1'' \<noteq> [] \<and> ''/tmp/wd'' \<noteq> [] \<and> runner_ready mock provider0 ''/tmp/wd'' \<and>
   template_copied mock ''/tmp/wd'' ''resource vpc'' \<and> Init_err mock = None \<and>
   Plan_err mock (region_and_name ''us-east-1'' ''c1'') = None \<and> Apply_err mock = None \<and>
   snd (Output_res mock) = None"
  by (simp add: mock_def runner_ready_def template_copied_def)

lemma mock_create_ok:
  "snd (fst (createHostedControlPlaneVPC mock provider0 ''c1'' ''us-east-1'' ''/tmp/wd'' world0)) = None"
  using mock_success by (simp add: create_success_iff) blast

lemma mock_output_values:
  "fst (Output_res mock) ''cluster-private-subnet'' = Some (quoted_output ''10.0.1.0/24'') \<and>
   fst (Output_res mock) ''cluster-public-subnet'' = Some (quoted_output ''10.0.2.0/24'') \<and>
   fst (Output_res mock) ''node-private-subnet'' = Some (quoted_output ''10.0.3.0/24'')"
  by (simp add: mock_def mock_output_def)

lemma quote_notin_unquoted: "CHR 0x22 \<notin> set (unquoted s)"
  by (simp add: unquoted_def)

lemma mock_partial_success:
  "''c1'' \<noteq> [] \<and> ''us-east-1'' \<noteq> [] \<and> ''/tmp/wd'' \<noteq> [] \<and>
   runner_ready mock_partial provider0 ''/tmp/wd'' \<and>
   template_copied mock_partial ''/tmp/wd'' ''resource vpc'' \<and> Init_err mock_partial = None \<and>
   Plan_err mock_partial (region_and_name ''us-east-1'' ''c1'') = None \<and>
   Apply_err mock_partial = None \<and> snd (Output_res mock_partial) = None"
  by (simp add: mock_partial_def mock_def runner_ready_def template_copied_def)

lemma mock_partial_create:
  "fst (createHostedControlPlaneVPC mock_partial provider0 ''c1'' ''us-east-1'' ''/tmp/wd'' world0) =
     (Some \<lparr>privateSubnet = ''10.0.1.0/24'', publicSubnet = [], nodePrivateSubnet = []\<rparr>, None)"
proof -
  note ok = mock_partial_success
  have "createHostedControlPlaneVPC mock_partial provider0 ''c1'' ''us-east-1'' ''/tmp/wd'' world0 =
     ((Some \<lparr>privateSubnet = unquoted (Value (index_map (fst (Output_res mock_partial)) ''cluster-private-subnet'')),
             publicSubnet = unquoted (Value (index_map (fst (Output_res mock_partial)) ''cluster-public-subnet'')),
             nodePrivateSubnet = unquoted (Value (index_map (fst (Output_res mock_partial)) ''node-private-subnet''))\<rparr>,
       None),
      world0\<lparr>files := (files world0)(''/tmp/wd'' @ ''/setup-hcp-vpc.tf'' \<mapsto> ''resource vpc''),
        trace := trace world0 @ [E_New ''/tmp/wd'', E_SetEnvVars (awsCredentials provider0), E_LogInfo ''Creating aws vpc'']
          @ copy_events ''assets/setup-hcp-vpc.tf'' (''/tmp/wd'' @ ''/setup-hcp-vpc.tf'')
          @ [E_Init, E_Plan (region_and_name ''us-east-1'' ''c1''), E_Apply, E_Output,
             E_LogInfo ''AWS vpc created!'', E_Uninstall]\<rparr>)"
    using ok by (intro create_success_run) simp_all
  then show ?thesis
    by (simp add: mock_partial_def index_map_def zero_OutputMeta_def unquoted_def quote_def)
qed

lemma delete_body_cases:
  "delete_body c act cn rg wd w =
     (let w2 = w\<lparr>trace := trace w @ [E_LogInfo ''Deleting aws vpc'', E_Init]\<rparr> in
      case Init_err c of
        Some e \<Rightarrow> (Some (tagged act ''failed to perform terraform init: '' e), w2)
      | None \<Rightarrow>
        (case Destroy_err c (region_and_name rg cn) of
          Some e \<Rightarrow> (Some (tagged act ''failed to perform terraform destroy: '' e),
                     w2\<lparr>trace := trace w2 @ [E_Destroy (region_and_name rg cn)]\<rparr>)
        | None \<Rightarrow> (None, w2\<lparr>trace := trace w2 @ [E_Destroy (region_and_name rg cn),
                                                   E_LogInfo ''AWS vpc deleted!'']\<rparr>)))"
  by (simp add: delete_body_def Let_def emit_def tagged_def Errorf_v_def region_and_name_def
      split: option.splits)

subsection \<open>Claims\<close>

text \<open>
  Claim C2. When at least one of \<open>clusterName\<close>, \<open>awsRegion\<close>, \<open>workingDir\<close> is the
  empty string, create and destroy fail with the tagged empty-parameter error, and the
  world is returned as it was: no runner is constructed, no credentials are set, no file
  is touched and no step of the tool is run.
\<close>

theorem empty_parameter_rejected:
  "clusterName = [] \<or> awsRegion = [] \<or> workingDir = [] \<Longrightarrow>
   createHostedControlPlaneVPC c r clusterName awsRegion workingDir w =
     ((None, Some (empty_parameter_error ''create'')), w) \<and>
   deleteHostedControlPlaneVPC c r clusterName awsRegion workingDir w =
     (Some (empty_parameter_error ''delete''), w)"
  by (simp add: createHostedControlPlaneVPC_def deleteHostedControlPlaneVPC_def
      empty_parameter_error_def errors_New_def)

theorem empty_parameter_rejected_witness:
  "(''c1'' = [] \<or> ([]::string) = [] \<or> ''/tmp/wd'' = []) \<and>
   createHostedControlPlaneVPC mock provider0 ''c1'' [] ''/tmp/wd'' world0 =
     ((None, Some (empty_parameter_error ''create'')), world0) \<and>
   deleteHostedControlPlaneVPC mock provider0 ''c1'' [] ''/tmp/wd'' world0 =
     (Some (empty_parameter_error ''delete''), world0) \<and>
   trace world0 = [] \<and>
   Error (empty_parameter_error ''create'') =
     ''create hcp cluster vpc failed: one or more parameters is empty''"
  using empty_parameter_rejected [of "''c1''" "[]" "''/tmp/wd''" mock provider0 world0]
  by (simp add: world0_def empty_parameter_error_def)

text \<open>
  Claim C8. The values create and destroy return do not depend on the outcome of the
  cleanup: with an uninstall that fails with any error \<open>e\<close> they return what they
  return with an uninstall that succeeds.
\<close>

theorem uninstall_error_discarded:
  "fst (createHostedControlPlaneVPC (c\<lparr>Uninstall_err := Some e\<rparr>) r clusterName awsRegion workingDir w) =
   fst (createHostedControlPlaneVPC (c\<lparr>Uninstall_err := None\<rparr>) r clusterName awsRegion workingDir w) \<and>
   fst (deleteHostedControlPlaneVPC (c\<lparr>Uninstall_err := Some e\<rparr>) r clusterName awsRegion workingDir w) =
   fst (deleteHostedControlPlaneVPC (c\<lparr>Uninstall_err := None\<rparr>) r clusterName awsRegion workingDir w)"
  by (simp add: createHostedControlPlaneVPC_def deleteHostedControlPlaneVPC_def Let_def
      create_body_Uninstall_err delete_body_Uninstall_err deferred_Uninstall_eq
      cong: sum.case_cong option.case_cong prod.case_cong)

text \<open>
  Claim C7. Every error create returns is an \<open>hcpVPCError\<close> with action \<open>create\<close>,
  every error destroy returns is one with action \<open>delete\<close>, each with a cause that is
  not nil, and its message is the action, then \<open>hcp cluster vpc failed:\<close>, then the
  message of the cause.
\<close>

theorem returned_errors_are_tagged:
  "(snd (fst (createHostedControlPlaneVPC c r clusterName awsRegion workingDir w)) = Some e \<longrightarrow>
      (\<exists>cause. e = HcpVPCError ''create'' (Some cause) \<and>
         Error e = ''create'' @ '' hcp cluster vpc failed: '' @ Error cause)) \<and>
   (fst (deleteHostedControlPlaneVPC c r clusterName awsRegion workingDir w) = Some e \<longrightarrow>
      (\<exists>cause. e = HcpVPCError ''delete'' (Some cause) \<and>
         Error e = ''delete'' @ '' hcp cluster vpc failed: '' @ Error cause))"
proof (intro conjI impI)
  assume "snd (fst (createHostedControlPlaneVPC c r clusterName awsRegion workingDir w)) = Some e"
  then obtain cause where "e = HcpVPCError ''create'' (Some cause)"
    using create_tagged by blast
  then show "\<exists>cause. e = HcpVPCError ''create'' (Some cause) \<and>
         Error e = ''create'' @ '' hcp cluster vpc failed: '' @ Error cause"
    by simp
next
  assume "fst (deleteHostedControlPlaneVPC c r clusterName awsRegion workingDir w) = Some e"
  then obtain cause where "e = HcpVPCError ''delete'' (Some cause)"
    using delete_tagged by blast
  then show "\<exists>cause. e = HcpVPCError ''delete'' (Some cause) \<and>
         Error e = ''delete'' @ '' hcp cluster vpc failed: '' @ Error cause"
    by simp
qed

theorem returned_errors_are_tagged_witness:
  "snd (fst (createHostedControlPlaneVPC (mock\<lparr>Apply_err := Some boom\<rparr>) provider0
      ''c1'' ''us-east-1'' ''/tmp/wd'' world0)) =
     Some (HcpVPCError ''create'' (Some (ErrorString ''failed to perform terraform apply: boom''))) \<and>
   Error (HcpVPCError ''create'' (Some (ErrorString ''failed to perform terraform apply: boom''))) =
     ''create hcp cluster vpc failed: failed to perform terraform apply: boom'' \<and>
   fst (deleteHostedControlPlaneVPC (mock\<lparr>Destroy_err := (\<lambda>vs. Some boom)\<rparr>) provider0
      ''c1'' ''us-east-1'' ''/tmp/wd'' world0) =
     Some (HcpVPCError ''delete'' (Some (ErrorString ''failed to perform terraform destroy: boom''))) \<and>
   Error (HcpVPCError ''delete'' (Some (ErrorString ''failed to perform terraform destroy: boom''))) =
     ''delete hcp cluster vpc failed: failed to perform terraform destroy: boom''"
proof -
  have 1: "snd (fst (createHostedControlPlaneVPC (mock\<lparr>Apply_err := Some boom\<rparr>) provider0
      ''c1'' ''us-east-1'' ''/tmp/wd'' world0)) =
     Some (HcpVPCError ''create'' (Some (ErrorString ''failed to perform terraform apply: boom'')))"
    by (simp add: createHostedControlPlaneVPC_def create_body_def copyFile_def mock_def
        provider0_def world0_def boom_def Let_def Errorf_v_def deferred_Uninstall_eq)
  have 2: "fst (deleteHostedControlPlaneVPC (mock\<lparr>Destroy_err := (\<lambda>vs. Some boom)\<rparr>) provider0
      ''c1'' ''us-east-1'' ''/tmp/wd'' world0) =
     Some (HcpVPCError ''delete'' (Some (ErrorString ''failed to perform terraform destroy: boom'')))"
    by (simp add: deleteHostedControlPlaneVPC_def delete_body_def mock_def
        provider0_def world0_def boom_def Let_def Errorf_v_def deferred_Uninstall_eq)
  show ?thesis
    using returned_errors_are_tagged [of "mock\<lparr>Apply_err := Some boom\<rparr>" provider0
        "''c1''" "''us-east-1''" "''/tmp/wd''" world0
        "HcpVPCError ''create'' (Some (ErrorString ''failed to perform terraform apply: boom''))"]
      returned_errors_are_tagged [of "mock\<lparr>Destroy_err := (\<lambda>vs. Some boom)\<rparr>" provider0
        "''c1''" "''us-east-1''" "''/tmp/wd''" world0
        "HcpVPCError ''delete'' (Some (ErrorString ''failed to perform terraform destroy: boom''))"]
      1 2
    by simp
qed

text \<open>
  Claim C1, as the code has it. The cleanup is deferred only once the runner exists and
  has taken the credentials. From then on, whatever the template copy and the steps of
  the tool do, create and destroy call uninstall exactly once, as their last call. When
  a parameter is empty or the construction of the runner fails there is no runner, and
  uninstall is not called.
\<close>

theorem uninstall_once_when_runner_ready:
  "(clusterName \<noteq> [] \<and> awsRegion \<noteq> [] \<and> workingDir \<noteq> [] \<and> runner_ready c r workingDir \<longrightarrow>
      count_list (trace (snd (createHostedControlPlaneVPC c r clusterName awsRegion workingDir w))) E_Uninstall
        = count_list (trace w) E_Uninstall + 1 \<and>
      last (trace (snd (createHostedControlPlaneVPC c r clusterName awsRegion workingDir w))) = E_Uninstall \<and>
      count_list (trace (snd (deleteHostedControlPlaneVPC c r clusterName awsRegion workingDir w))) E_Uninstall
        = count_list (trace w) E_Uninstall + 1 \<and>
      last (trace (snd (deleteHostedControlPlaneVPC c r clusterName awsRegion workingDir w))) = E_Uninstall) \<and>
   (clusterName = [] \<or> awsRegion = [] \<or> workingDir = [] \<or> New_err c workingDir \<noteq> None \<longrightarrow>
      count_list (trace (snd (createHostedControlPlaneVPC c r clusterName awsRegion workingDir w))) E_Uninstall
        = count_list (trace w) E_Uninstall \<and>
      count_list (trace (snd (deleteHostedControlPlaneVPC c r clusterName awsRegion workingDir w))) E_Uninstall
        = count_list (trace w) E_Uninstall)"
proof (intro conjI impI)
  assume a: "clusterName \<noteq> [] \<and> awsRegion \<noteq> [] \<and> workingDir \<noteq> [] \<and> runner_ready c r workingDir"
  let ?w2 = "emit (E_SetEnvVars (awsCredentials r)) (emit (E_New workingDir) w)"
  obtain es where es: "trace (snd (create_body c ''create'' clusterName awsRegion workingDir ?w2))
      = trace ?w2 @ es" "E_Uninstall \<notin> set es"
    using create_body_trace by blast
  obtain ds where ds: "trace (snd (delete_body c ''delete'' clusterName awsRegion workingDir ?w2))
      = trace ?w2 @ ds" "E_Uninstall \<notin> set ds"
    using delete_body_trace by blast
  have cr: "trace (snd (createHostedControlPlaneVPC c r clusterName awsRegion workingDir w)) =
      trace w @ [E_New workingDir, E_SetEnvVars (awsCredentials r)] @ es @ [E_Uninstall]"
    using a es(1) by (simp add: create_after_ready emit_def)
  have de: "trace (snd (deleteHostedControlPlaneVPC c r clusterName awsRegion workingDir w)) =
      trace w @ [E_New workingDir, E_SetEnvVars (awsCredentials r)] @ ds @ [E_Uninstall]"
    using a ds(1) by (simp add: delete_after_ready emit_def)
  show "count_list (trace (snd (createHostedControlPlaneVPC c r clusterName awsRegion workingDir w))) E_Uninstall
        = count_list (trace w) E_Uninstall + 1"
    using es(2) by (simp add: cr)
  show "last (trace (snd (createHostedControlPlaneVPC c r clusterName awsRegion workingDir w))) = E_Uninstall"
    by (simp add: cr)
  show "count_list (trace (snd (deleteHostedControlPlaneVPC c r clusterName awsRegion workingDir w))) E_Uninstall
        = count_list (trace w) E_Uninstall + 1"
    using ds(2) by (simp add: de)
  show "last (trace (snd (deleteHostedControlPlaneVPC c r clusterName awsRegion workingDir w))) = E_Uninstall"
    by (simp add: de)
next
  assume b: "clusterName = [] \<or> awsRegion = [] \<or> workingDir = [] \<or> New_err c workingDir \<noteq> None"
  then show "count_list (trace (snd (createHostedControlPlaneVPC c r clusterName awsRegion workingDir w))) E_Uninstall
        = count_list (trace w) E_Uninstall"
    by (auto simp add: createHostedControlPlaneVPC_def Let_def emit_def)
  from b show "count_list (trace (snd (deleteHostedControlPlaneVPC c r clusterName awsRegion workingDir w))) E_Uninstall
        = count_list (trace w) E_Uninstall"
    by (auto simp add: deleteHostedControlPlaneVPC_def Let_def emit_def)
qed

text \<open>
  Claim C1 as it is stated fails: with an empty cluster name create returns without any
  call of uninstall.
\<close>

theorem uninstall_skipped_on_empty_parameter:
  "count_list (trace (snd (createHostedControlPlaneVPC mock provider0 [] ''us-east-1'' ''/tmp/wd'' world0)))
     E_Uninstall \<noteq> 1"
  by (simp add: createHostedControlPlaneVPC_def world0_def)

theorem uninstall_once_when_runner_ready_witness:
  "''c1'' \<noteq> [] \<and> ''us-east-1'' \<noteq> [] \<and> ''/tmp/wd'' \<noteq> [] \<and>
   runner_ready (mock\<lparr>Apply_err := Some boom\<rparr>) provider0 ''/tmp/wd'' \<and>
   count_list (trace (snd (createHostedControlPlaneVPC (mock\<lparr>Apply_err := Some boom\<rparr>) provider0
      ''c1'' ''us-east-1'' ''/tmp/wd'' world0))) E_Uninstall = 1 \<and>
   last (trace (snd (createHostedControlPlaneVPC (mock\<lparr>Apply_err := Some boom\<rparr>) provider0
      ''c1'' ''us-east-1'' ''/tmp/wd'' world0))) = E_Uninstall \<and>
   count_list (trace (snd (deleteHostedControlPlaneVPC (mock\<lparr>Apply_err := Some boom\<rparr>) provider0
      ''c1'' ''us-east-1'' ''/tmp/wd'' world0))) E_Uninstall = 1 \<and>
   last (trace (snd (deleteHostedControlPlaneVPC (mock\<lparr>Apply_err := Some boom\<rparr>) provider0
      ''c1'' ''us-east-1'' ''/tmp/wd'' world0))) = E_Uninstall \<and>
   New_err (mock\<lparr>New_err := (\<lambda>d. Some boom)\<rparr>) ''/tmp/wd'' \<noteq> None \<and>
   count_list (trace (snd (createHostedControlPlaneVPC (mock\<lparr>New_err := (\<lambda>d. Some boom)\<rparr>) provider0
      ''c1'' ''us-east-1'' ''/tmp/wd'' world0))) E_Uninstall = 0 \<and>
   count_list (trace (snd (deleteHostedControlPlaneVPC (mock\<lparr>New_err := (\<lambda>d. Some boom)\<rparr>) provider0
      ''c1'' ''us-east-1'' ''/tmp/wd'' world0))) E_Uninstall = 0"
  using uninstall_once_when_runner_ready [of "''c1''" "''us-east-1''" "''/tmp/wd''"
      "mock\<lparr>Apply_err := Some boom\<rparr>" provider0 world0]
    uninstall_once_when_runner_ready [of "''c1''" "''us-east-1''" "''/tmp/wd''"
      "mock\<lparr>New_err := (\<lambda>d. Some boom)\<rparr>" provider0 world0]
  by (simp add: mock_def runner_ready_def world0_def)

text \<open>
  Claim C3. When create succeeds and the output of the tool has values for the keys
  \<open>cluster-private-subnet\<close>, \<open>cluster-public-subnet\<close> and \<open>node-private-subnet\<close>,
  the returned \<open>vpc\<close> holds these three values with the quote characters removed, and
  the returned error is nil.
\<close>

theorem create_returns_unquoted_outputs:
  assumes "snd (fst (createHostedControlPlaneVPC c r clusterName awsRegion workingDir w)) = None"
    and "fst (Output_res c) ''cluster-private-subnet'' = Some a"
    and "fst (Output_res c) ''cluster-public-subnet'' = Some b"
    and "fst (Output_res c) ''node-private-subnet'' = Some n"
  shows "fst (createHostedControlPlaneVPC c r clusterName awsRegion workingDir w) =
     (Some \<lparr>privateSubnet = unquoted (Value a), publicSubnet = unquoted (Value b),
            nodePrivateSubnet = unquoted (Value n)\<rparr>, None)"
proof -
  from assms(1) obtain content where ok:
    "clusterName \<noteq> []" "awsRegion \<noteq> []" "workingDir \<noteq> []" "runner_ready c r workingDir"
    "template_copied c workingDir content" "Init_err c = None"
    "Plan_err c (region_and_name awsRegion clusterName) = None" "Apply_err c = None"
    "snd (Output_res c) = None"
    by (auto simp add: create_success_iff)
  show ?thesis
    by (simp add: create_success_run [OF ok] index_map_def assms(2-4))
qed

theorem create_returns_unquoted_outputs_witness:
  "snd (fst (createHostedControlPlaneVPC mock provider0 ''c1'' ''us-east-1'' ''/tmp/wd'' world0)) = None \<and>
   Value (quoted_output ''10.0.1.0/24'') = [CHR 0x22] @ ''10.0.1.0/24'' @ [CHR 0x22] \<and>
   fst (createHostedControlPlaneVPC mock provider0 ''c1'' ''us-east-1'' ''/tmp/wd'' world0) =
     (Some \<lparr>privateSubnet = ''10.0.1.0/24'', publicSubnet = ''10.0.2.0/24'',
            nodePrivateSubnet = ''10.0.3.0/24''\<rparr>, None)"
  using create_returns_unquoted_outputs [OF mock_create_ok mock_output_values [THEN conjunct1]
      mock_output_values [THEN conjunct2, THEN conjunct1]
      mock_output_values [THEN conjunct2, THEN conjunct2]] mock_create_ok
  by (simp add: quoted_output_def quote_def unquoted_def)

text \<open>
  Claim C9. When every step of create succeeds, create returns a \<open>vpc\<close> and a nil
  error whatever keys the output has; the field of a key that the output lacks is the
  empty string.
\<close>

theorem missing_output_key_gives_empty_field:
  assumes "clusterName \<noteq> []" "awsRegion \<noteq> []" "workingDir \<noteq> []"
    and "runner_ready c r workingDir" and "template_copied c workingDir content"
    and "Init_err c = None" and "Plan_err c (region_and_name awsRegion clusterName) = None"
    and "Apply_err c = None" and "snd (Output_res c) = None"
  shows "\<exists>v. fst (createHostedControlPlaneVPC c r clusterName awsRegion workingDir w) = (Some v, None) \<and>
     (fst (Output_res c) ''cluster-private-subnet'' = None \<longrightarrow> privateSubnet v = []) \<and>
     (fst (Output_res c) ''cluster-public-subnet'' = None \<longrightarrow> publicSubnet v = []) \<and>
     (fst (Output_res c) ''node-private-subnet'' = None \<longrightarrow> nodePrivateSubnet v = [])"
proof -
  let ?out = "fst (Output_res c)"
  let ?v = "\<lparr>privateSubnet = unquoted (Value (index_map ?out ''cluster-private-subnet'')),
             publicSubnet = unquoted (Value (index_map ?out ''cluster-public-subnet'')),
             nodePrivateSubnet = unquoted (Value (index_map ?out ''node-private-subnet''))\<rparr>"
  have run: "fst (createHostedControlPlaneVPC c r clusterName awsRegion workingDir w) = (Some ?v, None)"
    by (simp add: create_success_run [OF assms])
  have missing: "unquoted (Value (index_map ?out k)) = []" if "?out k = None" for k
    using that by (simp add: index_map_def zero_OutputMeta_def unquoted_def)
  from run missing show ?thesis by simp
qed

theorem missing_output_key_gives_empty_field_witness:
  "''c1'' \<noteq> [] \<and> ''us-east-1'' \<noteq> [] \<and> ''/tmp/wd'' \<noteq> [] \<and>
   runner_ready mock_partial provider0 ''/tmp/wd'' \<and>
   template_copied mock_partial ''/tmp/wd'' ''resource vpc'' \<and> Init_err mock_partial = None \<and>
   Plan_err mock_partial (region_and_name ''us-east-1'' ''c1'') = None \<and>
   Apply_err mock_partial = None \<and> snd (Output_res mock_partial) = None \<and>
   fst (Output_res mock_partial) ''cluster-public-subnet'' = None \<and>
   fst (Output_res mock_partial) ''node-private-subnet'' = None \<and>
   fst (createHostedControlPlaneVPC mock_partial provider0 ''c1'' ''us-east-1'' ''/tmp/wd'' world0) =
     (Some \<lparr>privateSubnet = ''10.0.1.0/24'', publicSubnet = [], nodePrivateSubnet = []\<rparr>, None)"
proof -
  have keys: "fst (Output_res mock_partial) ''cluster-public-subnet'' = None"
    "fst (Output_res mock_partial) ''node-private-subnet'' = None"
    by (simp_all add: mock_partial_def)
  from mock_partial_success have
    "\<exists>v. fst (createHostedControlPlaneVPC mock_partial provider0 ''c1'' ''us-east-1'' ''/tmp/wd'' world0)
          = (Some v, None) \<and>
       (fst (Output_res mock_partial) ''cluster-private-subnet'' = None \<longrightarrow> privateSubnet v = []) \<and>
       (fst (Output_res mock_partial) ''cluster-public-subnet'' = None \<longrightarrow> publicSubnet v = []) \<and>
       (fst (Output_res mock_partial) ''node-private-subnet'' = None \<longrightarrow> nodePrivateSubnet v = [])"
    by (intro missing_output_key_gives_empty_field [where content = "''resource vpc''"]) simp_all
  then obtain v where v:
    "fst (createHostedControlPlaneVPC mock_partial provider0 ''c1'' ''us-east-1'' ''/tmp/wd'' world0)
       = (Some v, None)" "publicSubnet v = []" "nodePrivateSubnet v = []"
    using keys by auto
  from v(1) mock_partial_create
  have "v = \<lparr>privateSubnet = ''10.0.1.0/24'', publicSubnet = [], nodePrivateSubnet = []\<rparr>"
    by simp
  with v(1) keys mock_partial_success show ?thesis by simp
qed

text \<open>
  Claim C10. No field of a \<open>vpc\<close> that create returns with a nil error contains a
  double quote, wherever the quotes stood in the output value.
\<close>

theorem returned_fields_have_no_quote:
  assumes "fst (createHostedControlPlaneVPC c r clusterName awsRegion workingDir w) = (Some v, None)"
  shows "CHR 0x22 \<notin> set (privateSubnet v) \<and> CHR 0x22 \<notin> set (publicSubnet v) \<and>
     CHR 0x22 \<notin> set (nodePrivateSubnet v)"
proof -
  from assms have "snd (fst (createHostedControlPlaneVPC c r clusterName awsRegion workingDir w)) = None"
    by simp
  then obtain content where ok:
    "clusterName \<noteq> []" "awsRegion \<noteq> []" "workingDir \<noteq> []" "runner_ready c r workingDir"
    "template_copied c workingDir content" "Init_err c = None"
    "Plan_err c (region_and_name awsRegion clusterName) = None" "Apply_err c = None"
    "snd (Output_res c) = None"
    by (auto simp add: create_success_iff)
  from assms show ?thesis
    by (auto simp add: create_success_run [OF ok] quote_notin_unquoted)
qed

theorem returned_fields_have_no_quote_witness:
  "fst (createHostedControlPlaneVPC mock_partial provider0 ''c1'' ''us-east-1'' ''/tmp/wd'' world0) =
     (Some \<lparr>privateSubnet = ''10.0.1.0/24'', publicSubnet = [], nodePrivateSubnet = []\<rparr>, None) \<and>
   Value (index_map (fst (Output_res mock_partial)) ''cluster-private-subnet'') =
     [CHR 0x22] @ ''10.0'' @ [CHR 0x22] @ ''.1.0/24'' @ [CHR 0x22] \<and>
   CHR 0x22 \<notin> set ''10.0.1.0/24'' \<and> CHR 0x22 \<notin> set ([]::string)"
  using returned_fields_have_no_quote [OF mock_partial_create] mock_partial_create
  by (simp add: mock_partial_def index_map_def quote_def)

text \<open>
  Claim C5. A successful create makes its calls in this order: the runner is constructed
  and takes the credentials; the asset is opened, the file
  \<open>workingDir/setup-hcp-vpc.tf\<close> is created, the content is copied and both files are
  closed, after which the file holds exactly the bytes of the asset (world \<open>wc\<close>);
  then come init, plan, apply and output, once each, and last the uninstall.
\<close>

theorem create_success_order:
  assumes "snd (fst (createHostedControlPlaneVPC c r clusterName awsRegion workingDir w)) = None"
  shows "\<exists>content wc.
     FS_Open c ''assets/setup-hcp-vpc.tf'' = Inr content \<and>
     copyFile c ''assets/setup-hcp-vpc.tf'' (workingDir @ ''/setup-hcp-vpc.tf'')
       (w\<lparr>trace := trace w @ [E_New workingDir, E_SetEnvVars (awsCredentials r),
                                E_LogInfo ''Creating aws vpc'']\<rparr>) = (None, wc) \<and>
     files wc (workingDir @ ''/setup-hcp-vpc.tf'') = Some content \<and>
     trace wc = trace w @ [E_New workingDir, E_SetEnvVars (awsCredentials r),
                           E_LogInfo ''Creating aws vpc'',
                           E_FS_Open ''assets/setup-hcp-vpc.tf'',
                           E_os_Create (workingDir @ ''/setup-hcp-vpc.tf''),
                           E_io_Copy (workingDir @ ''/setup-hcp-vpc.tf'') ''assets/setup-hcp-vpc.tf'',
                           E_Close (workingDir @ ''/setup-hcp-vpc.tf''),
                           E_Close ''assets/setup-hcp-vpc.tf''] \<and>
     snd (createHostedControlPlaneVPC c r clusterName awsRegion workingDir w) =
       wc\<lparr>trace := trace wc @ [E_Init,
                 E_Plan [Var (''aws_region='' @ awsRegion), Var (''cluster_name='' @ clusterName)],
                 E_Apply, E_Output, E_LogInfo ''AWS vpc created!'', E_Uninstall]\<rparr>"
proof -
  from assms obtain content where ok:
    "clusterName \<noteq> []" "awsRegion \<noteq> []" "workingDir \<noteq> []" "runner_ready c r workingDir"
    "template_copied c workingDir content" "Init_err c = None"
    "Plan_err c (region_and_name awsRegion clusterName) = None" "Apply_err c = None"
    "snd (Output_res c) = None"
    by (auto simp add: create_success_iff)
  from ok(5) have t: "FS_Open c ''assets/setup-hcp-vpc.tf'' = Inr content"
    "os_Create_err c (workingDir @ ''/setup-hcp-vpc.tf'') = None" "io_Copy_fault c = None"
    by (simp_all add: template_copied_def)
  show ?thesis
    by (simp add: create_success_run [OF ok] copyFile_success [OF t] t(1) copy_events_def
        region_and_name_def)
qed

theorem create_success_order_witness:
  "snd (fst (createHostedControlPlaneVPC mock provider0 ''c1'' ''us-east-1'' ''/tmp/wd'' world0)) = None \<and>
   files (snd (createHostedControlPlaneVPC mock provider0 ''c1'' ''us-east-1'' ''/tmp/wd'' world0))
     ''/tmp/wd/setup-hcp-vpc.tf'' = Some ''resource vpc'' \<and>
   trace (snd (createHostedControlPlaneVPC mock provider0 ''c1'' ''us-east-1'' ''/tmp/wd'' world0)) =
     [E_New ''/tmp/wd'', E_SetEnvVars (awsCredentials provider0), E_LogInfo ''Creating aws vpc'',
      E_FS_Open ''assets/setup-hcp-vpc.tf'', E_os_Create ''/tmp/wd/setup-hcp-vpc.tf'',
      E_io_Copy ''/tmp/wd/setup-hcp-vpc.tf'' ''assets/setup-hcp-vpc.tf'',
      E_Close ''/tmp/wd/setup-hcp-vpc.tf'', E_Close ''assets/setup-hcp-vpc.tf'',
      E_Init, E_Plan [Var ''aws_region=us-east-1'', Var ''cluster_name=c1''],
      E_Apply, E_Output, E_LogInfo ''AWS vpc created!'', E_Uninstall]"
  using create_success_order [OF mock_create_ok] mock_create_ok
  by (auto simp add: mock_def world0_def)

text \<open>
  Claim C4, as the code has it. With non-empty parameters, the first step of create that
  fails ends the sequence: no later step is called (only the deferred uninstall, once the
  runner is ready), no \<open>vpc\<close> is returned, and the error is the \<open>hcpVPCError\<close> with
  action \<open>create\<close> whose cause has as message the name of the failed step followed by
  the message of the underlying error \<open>e\<close>. The steps are, in order: the construction
  of the runner, the credentials, the template copy, init, plan, apply and output. When
  apply fails the trace ends with apply and the uninstall: output is not called.
\<close>

theorem create_step_failure_aborts:
  assumes "clusterName \<noteq> []" "awsRegion \<noteq> []" "workingDir \<noteq> []"
  shows
   "(New_err c workingDir = Some e \<longrightarrow>
       createHostedControlPlaneVPC c r clusterName awsRegion workingDir w =
         ((None, Some (tagged ''create'' ''failed to construct terraform runner: '' e)),
          w\<lparr>trace := trace w @ [E_New workingDir]\<rparr>)) \<and>
    (New_err c workingDir = None \<and> SetEnvVars_err c (awsCredentials r) = Some e \<longrightarrow>
       createHostedControlPlaneVPC c r clusterName awsRegion workingDir w =
         ((None, Some (tagged ''create''
             ''failed to set terraform runner aws credentials (env vars): '' e)),
          w\<lparr>trace := trace w @ [E_New workingDir, E_SetEnvVars (awsCredentials r)]\<rparr>)) \<and>
    (runner_ready c r workingDir \<and>
     copyFile c ''assets/setup-hcp-vpc.tf'' (workingDir @ ''/setup-hcp-vpc.tf'')
       (w\<lparr>trace := trace w @ [E_New workingDir, E_SetEnvVars (awsCredentials r),
                                E_LogInfo ''Creating aws vpc'']\<rparr>) = (Some e, wc) \<longrightarrow>
       createHostedControlPlaneVPC c r clusterName awsRegion workingDir w =
         ((None, Some (tagged ''create''
             ''failed to copy terraform file to working directory: '' e)),
          wc\<lparr>trace := trace wc @ [E_Uninstall]\<rparr>) \<and>
       (\<exists>es. trace wc = trace w @ [E_New workingDir, E_SetEnvVars (awsCredentials r),
                                    E_LogInfo ''Creating aws vpc''] @ es \<and>
             list_all is_file_event es)) \<and>
    (runner_ready c r workingDir \<and> template_copied c workingDir content \<and>
     Init_err c = Some e \<longrightarrow>
       createHostedControlPlaneVPC c r clusterName awsRegion workingDir w =
         ((None, Some (tagged ''create'' ''failed to perform terraform init: '' e)),
          w\<lparr>files := (files w)(workingDir @ ''/setup-hcp-vpc.tf'' \<mapsto> content),
            trace := trace w @ [E_New workingDir, E_SetEnvVars (awsCredentials r),
                                E_LogInfo ''Creating aws vpc'']
              @ copy_events ''assets/setup-hcp-vpc.tf'' (workingDir @ ''/setup-hcp-vpc.tf'')
              @ [E_Init, E_Uninstall]\<rparr>)) \<and>
    (runner_ready c r workingDir \<and> template_copied c workingDir content \<and>
     Init_err c = None \<and> Plan_err c (region_and_name awsRegion clusterName) = Some e \<longrightarrow>
       createHostedControlPlaneVPC c r clusterName awsRegion workingDir w =
         ((None, Some (tagged ''create'' ''failed to perform terraform plan: '' e)),
          w\<lparr>files := (files w)(workingDir @ ''/setup-hcp-vpc.tf'' \<mapsto> content),
            trace := trace w @ [E_New workingDir, E_SetEnvVars (awsCredentials r),
                                E_LogInfo ''Creating aws vpc'']
              @ copy_events ''assets/setup-hcp-vpc.tf'' (workingDir @ ''/setup-hcp-vpc.tf'')
              @ [E_Init, E_Plan (region_and_name awsRegion clusterName), E_Uninstall]\<rparr>)) \<and>
    (runner_ready c r workingDir \<and> template_copied c workingDir content \<and>
     Init_err c = None \<and> Plan_err c (region_and_name awsRegion clusterName) = None \<and>
     Apply_err c = Some e \<longrightarrow>
       createHostedControlPlaneVPC c r clusterName awsRegion workingDir w =
         ((None, Some (tagged ''create'' ''failed to perform terraform apply: '' e)),
          w\<lparr>files := (files w)(workingDir @ ''/setup-hcp-vpc.tf'' \<mapsto> content),
            trace := trace w @ [E_New workingDir, E_SetEnvVars (awsCredentials r),
                                E_LogInfo ''Creating aws vpc'']
              @ copy_events ''assets/setup-hcp-vpc.tf'' (workingDir @ ''/setup-hcp-vpc.tf'')
              @ [E_Init, E_Plan (region_and_name awsRegion clusterName), E_Apply,
                 E_Uninstall]\<rparr>)) \<and>
    (runner_ready c r workingDir \<and> template_copied c workingDir content \<and>
     Init_err c = None \<and> Plan_err c (region_and_name awsRegion clusterName) = None \<and>
     Apply_err c = None \<and> snd (Output_res c) = Some e \<longrightarrow>
       createHostedControlPlaneVPC c r clusterName awsRegion workingDir w =
         ((None, Some (tagged ''create'' ''failed to perform terraform output: '' e)),
          w\<lparr>files := (files w)(workingDir @ ''/setup-hcp-vpc.tf'' \<mapsto> content),
            trace := trace w @ [E_New workingDir, E_SetEnvVars (awsCredentials r),
                                E_LogInfo ''Creating aws vpc'']
              @ copy_events ''assets/setup-hcp-vpc.tf'' (workingDir @ ''/setup-hcp-vpc.tf'')
              @ [E_Init, E_Plan (region_and_name awsRegion clusterName), E_Apply, E_Output,
                 E_Uninstall]\<rparr>))"
    (is "?New \<and> ?Env \<and> ?Copy \<and> ?Init \<and> ?Plan \<and> ?Apply \<and> ?Output")
proof -
  have c_new: ?New
    using assms
    by (simp add: createHostedControlPlaneVPC_def Let_def emit_def tagged_def Errorf_v_def)
  have c_env: ?Env
    using assms
    by (simp add: createHostedControlPlaneVPC_def Let_def emit_def tagged_def Errorf_v_def)
  have c_copy: ?Copy
  proof (intro impI, elim conjE)
    assume rdy: "runner_ready c r workingDir"
      and cp: "copyFile c ''assets/setup-hcp-vpc.tf'' (workingDir @ ''/setup-hcp-vpc.tf'')
       (w\<lparr>trace := trace w @ [E_New workingDir, E_SetEnvVars (awsCredentials r),
                                E_LogInfo ''Creating aws vpc'']\<rparr>) = (Some e, wc)"
    let ?w2 = "emit (E_SetEnvVars (awsCredentials r)) (emit (E_New workingDir) w)"
    have cp': "copyFile c ''assets/setup-hcp-vpc.tf'' (workingDir @ ''/setup-hcp-vpc.tf'')
       (emit (E_LogInfo ''Creating aws vpc'') ?w2) = (Some e, wc)"
      using cp by (simp add: emit_def)
    have body: "create_body c ''create'' clusterName awsRegion workingDir ?w2 =
      ((None, Some (tagged ''create''
             ''failed to copy terraform file to working directory: '' e)), wc)"
      by (rule create_body_copy_failed [OF cp'])
    have res: "createHostedControlPlaneVPC c r clusterName awsRegion workingDir w =
         ((None, Some (tagged ''create''
             ''failed to copy terraform file to working directory: '' e)),
          wc\<lparr>trace := trace wc @ [E_Uninstall]\<rparr>)"
      by (simp add: create_after_ready [OF assms rdy] body) (simp add: emit_def)
    have tr: "\<exists>es. trace wc = trace w @ [E_New workingDir, E_SetEnvVars (awsCredentials r),
                                    E_LogInfo ''Creating aws vpc''] @ es \<and>
             list_all is_file_event es"
      using copyFile_trace [of c "''assets/setup-hcp-vpc.tf''" "workingDir @ ''/setup-hcp-vpc.tf''"
          "w\<lparr>trace := trace w @ [E_New workingDir, E_SetEnvVars (awsCredentials r),
                                E_LogInfo ''Creating aws vpc'']\<rparr>"] cp
      by simp
    from res tr show "createHostedControlPlaneVPC c r clusterName awsRegion workingDir w =
         ((None, Some (tagged ''create''
             ''failed to copy terraform file to working directory: '' e)),
          wc\<lparr>trace := trace wc @ [E_Uninstall]\<rparr>) \<and>
       (\<exists>es. trace wc = trace w @ [E_New workingDir, E_SetEnvVars (awsCredentials r),
                                    E_LogInfo ''Creating aws vpc''] @ es \<and>
             list_all is_file_event es)"
      by (rule conjI)
  qed
  have steps: "createHostedControlPlaneVPC c r clusterName awsRegion workingDir w =
      (fst (create_body c ''create'' clusterName awsRegion workingDir
         (emit (E_SetEnvVars (awsCredentials r)) (emit (E_New workingDir) w))),
       emit E_Uninstall (snd (create_body c ''create'' clusterName awsRegion workingDir
         (emit (E_SetEnvVars (awsCredentials r)) (emit (E_New workingDir) w)))))"
    if "runner_ready c r workingDir"
    by (rule create_after_ready [OF assms that])
  have c_init: ?Init
  proof (intro impI, elim conjE)
    assume h: "runner_ready c r workingDir" "template_copied c workingDir content"
      "Init_err c = Some e"
    show "createHostedControlPlaneVPC c r clusterName awsRegion workingDir w =
         ((None, Some (tagged ''create'' ''failed to perform terraform init: '' e)),
          w\<lparr>files := (files w)(workingDir @ ''/setup-hcp-vpc.tf'' \<mapsto> content),
            trace := trace w @ [E_New workingDir, E_SetEnvVars (awsCredentials r),
                                E_LogInfo ''Creating aws vpc'']
              @ copy_events ''assets/setup-hcp-vpc.tf'' (workingDir @ ''/setup-hcp-vpc.tf'')
              @ [E_Init, E_Uninstall]\<rparr>)"
      by (simp add: steps [OF h(1)] create_body_after_copy [OF h(2)] h(3) Let_def emit_def)
  qed
  have c_plan: ?Plan
  proof (intro impI, elim conjE)
    assume h: "runner_ready c r workingDir" "template_copied c workingDir content"
      "Init_err c = None" "Plan_err c (region_and_name awsRegion clusterName) = Some e"
    show "createHostedControlPlaneVPC c r clusterName awsRegion workingDir w =
         ((None, Some (tagged ''create'' ''failed to perform terraform plan: '' e)),
          w\<lparr>files := (files w)(workingDir @ ''/setup-hcp-vpc.tf'' \<mapsto> content),
            trace := trace w @ [E_New workingDir, E_SetEnvVars (awsCredentials r),
                                E_LogInfo ''Creating aws vpc'']
              @ copy_events ''assets/setup-hcp-vpc.tf'' (workingDir @ ''/setup-hcp-vpc.tf'')
              @ [E_Init, E_Plan (region_and_name awsRegion clusterName), E_Uninstall]\<rparr>)"
      by (simp add: steps [OF h(1)] create_body_after_copy [OF h(2)] h(3,4) Let_def emit_def)
  qed
  have c_apply: ?Apply
  proof (intro impI, elim conjE)
    assume h: "runner_ready c r workingDir" "template_copied c workingDir content"
      "Init_err c = None" "Plan_err c (region_and_name awsRegion clusterName) = None"
      "Apply_err c = Some e"
    show "createHostedControlPlaneVPC c r clusterName awsRegion workingDir w =
         ((None, Some (tagged ''create'' ''failed to perform terraform apply: '' e)),
          w\<lparr>files := (files w)(workingDir @ ''/setup-hcp-vpc.tf'' \<mapsto> content),
            trace := trace w @ [E_New workingDir, E_SetEnvVars (awsCredentials r),
                                E_LogInfo ''Creating aws vpc'']
              @ copy_events ''assets/setup-hcp-vpc.tf'' (workingDir @ ''/setup-hcp-vpc.tf'')
              @ [E_Init, E_Plan (region_and_name awsRegion clusterName), E_Apply,
                 E_Uninstall]\<rparr>)"
      by (simp add: steps [OF h(1)] create_body_after_copy [OF h(2)] h(3,4,5) Let_def emit_def)
  qed
  have c_output: ?Output
  proof (intro impI, elim conjE)
    assume h: "runner_ready c r workingDir" "template_copied c workingDir content"
      "Init_err c = None" "Plan_err c (region_and_name awsRegion clusterName) = None"
      "Apply_err c = None" "snd (Output_res c) = Some e"
    show "createHostedControlPlaneVPC c r clusterName awsRegion workingDir w =
         ((None, Some (tagged ''create'' ''failed to perform terraform output: '' e)),
          w\<lparr>files := (files w)(workingDir @ ''/setup-hcp-vpc.tf'' \<mapsto> content),
            trace := trace w @ [E_New workingDir, E_SetEnvVars (awsCredentials r),
                                E_LogInfo ''Creating aws vpc'']
              @ copy_events ''assets/setup-hcp-vpc.tf'' (workingDir @ ''/setup-hcp-vpc.tf'')
              @ [E_Init, E_Plan (region_and_name awsRegion clusterName), E_Apply, E_Output,
                 E_Uninstall]\<rparr>)"
      by (simp add: steps [OF h(1)] create_body_after_copy [OF h(2)] h(3,4,5,6) Let_def emit_def)
  qed
  from c_new c_env c_copy c_init c_plan c_apply c_output show ?thesis by (intro conjI)
qed

text \<open>
  Claim C4 as it is stated fails in its word wrapping: the cause is formatted with
  \<open>%v\<close>, so the error create returns for a failed apply carries the text of that
  failure and not the failure. Neither the returned error nor its cause unwraps, the
  failure is not in the chain of either, and two different failures with one message
  give the same error.
\<close>

theorem create_error_does_not_wrap_apply_failure:
  "snd (fst (createHostedControlPlaneVPC (mock\<lparr>Apply_err := Some boom\<rparr>) provider0
      ''c1'' ''us-east-1'' ''/tmp/wd'' world0)) =
     Some (HcpVPCError ''create'' (Some (ErrorString ''failed to perform terraform apply: boom''))) \<and>
   Unwrap (HcpVPCError ''create'' (Some (ErrorString ''failed to perform terraform apply: boom''))) = None \<and>
   Unwrap (ErrorString ''failed to perform terraform apply: boom'') = None \<and>
   \<not> errors_Is (HcpVPCError ''create'' (Some (ErrorString ''failed to perform terraform apply: boom'')))
       boom \<and>
   \<not> errors_Is (ErrorString ''failed to perform terraform apply: boom'') boom \<and>
   WrapError ''boom'' (ErrorString ''disk full'') \<noteq> boom \<and>
   snd (fst (createHostedControlPlaneVPC
      (mock\<lparr>Apply_err := Some (WrapError ''boom'' (ErrorString ''disk full''))\<rparr>) provider0
      ''c1'' ''us-east-1'' ''/tmp/wd'' world0)) =
     Some (HcpVPCError ''create'' (Some (ErrorString ''failed to perform terraform apply: boom'')))"
proof -
  have run: "snd (fst (createHostedControlPlaneVPC (mock\<lparr>Apply_err := Some x\<rparr>) provider0
      ''c1'' ''us-east-1'' ''/tmp/wd'' world0)) =
     Some (HcpVPCError ''create'' (Some (ErrorString (''failed to perform terraform apply: '' @ Error x))))"
    for x
    by (simp add: createHostedControlPlaneVPC_def create_body_def copyFile_def mock_def
        provider0_def world0_def Let_def Errorf_v_def deferred_Uninstall_eq)
  have chain: "\<not> errors_Is (HcpVPCError ''create''
        (Some (ErrorString ''failed to perform terraform apply: boom''))) boom"
    "\<not> errors_Is (ErrorString ''failed to perform terraform apply: boom'') boom"
    "WrapError ''boom'' (ErrorString ''disk full'') \<noteq> boom"
    by (simp_all add: boom_def)
  from run [of boom] run [of "WrapError ''boom'' (ErrorString ''disk full'')"] chain
  show ?thesis by (simp add: boom_def)
qed

theorem create_step_failure_aborts_witness:
  "createHostedControlPlaneVPC (mock\<lparr>New_err := (\<lambda>d. Some boom)\<rparr>) provider0 ''c1'' ''us-east-1'' ''/tmp/wd'' world0 =
     ((None, Some (HcpVPCError ''create'' (Some (ErrorString
        ''failed to construct terraform runner: boom'')))),
      \<lparr>files = Map.empty, trace = [E_New ''/tmp/wd'']\<rparr>) \<and>
   createHostedControlPlaneVPC (mock\<lparr>SetEnvVars_err := (\<lambda>m. Some boom)\<rparr>) provider0 ''c1'' ''us-east-1'' ''/tmp/wd'' world0 =
     ((None, Some (HcpVPCError ''create'' (Some (ErrorString
        ''failed to set terraform runner aws credentials (env vars): boom'')))),
      \<lparr>files = Map.empty, trace = [E_New ''/tmp/wd'', E_SetEnvVars (awsCredentials provider0)]\<rparr>) \<and>
   createHostedControlPlaneVPC (mock\<lparr>FS_Open := (\<lambda>p. Inl boom)\<rparr>) provider0 ''c1'' ''us-east-1'' ''/tmp/wd'' world0 =
     ((None, Some (HcpVPCError ''create'' (Some (ErrorString
        ''failed to copy terraform file to working directory: error opening assets/setup-hcp-vpc.tf file: boom'')))),
      \<lparr>files = Map.empty, trace = [E_New ''/tmp/wd'', E_SetEnvVars (awsCredentials provider0), E_LogInfo ''Creating aws vpc'',
        E_FS_Open ''assets/setup-hcp-vpc.tf'', E_Uninstall]\<rparr>) \<and>
   createHostedControlPlaneVPC (mock\<lparr>Init_err := Some boom\<rparr>) provider0 ''c1'' ''us-east-1'' ''/tmp/wd'' world0 =
     ((None, Some (HcpVPCError ''create'' (Some (ErrorString
        ''failed to perform terraform init: boom'')))),
      \<lparr>files = [''/tmp/wd/setup-hcp-vpc.tf'' \<mapsto> ''resource vpc''],
      trace = [E_New ''/tmp/wd'', E_SetEnvVars (awsCredentials provider0), E_LogInfo ''Creating aws vpc'',
        E_FS_Open ''assets/setup-hcp-vpc.tf'', E_os_Create ''/tmp/wd/setup-hcp-vpc.tf'',
        E_io_Copy ''/tmp/wd/setup-hcp-vpc.tf'' ''assets/setup-hcp-vpc.tf'',
        E_Close ''/tmp/wd/setup-hcp-vpc.tf'', E_Close ''assets/setup-hcp-vpc.tf'']
        @ [E_Init, E_Uninstall]\<rparr>) \<and>
   createHostedControlPlaneVPC (mock\<lparr>Plan_err := (\<lambda>vs. Some boom)\<rparr>) provider0 ''c1'' ''us-east-1'' ''/tmp/wd'' world0 =
     ((None, Some (HcpVPCError ''create'' (Some (ErrorString
        ''failed to perform terraform plan: boom'')))),
      \<lparr>files = [''/tmp/wd/setup-hcp-vpc.tf'' \<mapsto> ''resource vpc''],
      trace = [E_New ''/tmp/wd'', E_SetEnvVars (awsCredentials provider0), E_LogInfo ''Creating aws vpc'',
        E_FS_Open ''assets/setup-hcp-vpc.tf'', E_os_Create ''/tmp/wd/setup-hcp-vpc.tf'',
        E_io_Copy ''/tmp/wd/setup-hcp-vpc.tf'' ''assets/setup-hcp-vpc.tf'',
        E_Close ''/tmp/wd/setup-hcp-vpc.tf'', E_Close ''assets/setup-hcp-vpc.tf'']
        @ [E_Init, E_Plan [Var ''aws_region=us-east-1'', Var ''cluster_name=c1''], E_Uninstall]\<rparr>) \<and>
   createHostedControlPlaneVPC (mock\<lparr>Apply_err := Some boom\<rparr>) provider0 ''c1'' ''us-east-1'' ''/tmp/wd'' world0 =
     ((None, Some (HcpVPCError ''create'' (Some (ErrorString
        ''failed to perform terraform apply: boom'')))),
      \<lparr>files = [''/tmp/wd/setup-hcp-vpc.tf'' \<mapsto> ''resource vpc''],
      trace = [E_New ''/tmp/wd'', E_SetEnvVars (awsCredentials provider0), E_LogInfo ''Creating aws vpc'',
        E_FS_Open ''assets/setup-hcp-vpc.tf'', E_os_Create ''/tmp/wd/setup-hcp-vpc.tf'',
        E_io_Copy ''/tmp/wd/setup-hcp-vpc.tf'' ''assets/setup-hcp-vpc.tf'',
        E_Close ''/tmp/wd/setup-hcp-vpc.tf'', E_Close ''assets/setup-hcp-vpc.tf'']
        @ [E_Init, E_Plan [Var ''aws_region=us-east-1'', Var ''cluster_name=c1''], E_Apply, E_Uninstall]\<rparr>) \<and>
   createHostedControlPlaneVPC (mock\<lparr>Output_res := (Map.empty, Some boom)\<rparr>) provider0 ''c1'' ''us-east-1'' ''/tmp/wd'' world0 =
     ((None, Some (HcpVPCError ''create'' (Some (ErrorString
        ''failed to perform terraform output: boom'')))),
      \<lparr>files = [''/tmp/wd/setup-hcp-vpc.tf'' \<mapsto> ''resource vpc''],
      trace = [E_New ''/tmp/wd'', E_SetEnvVars (awsCredentials provider0), E_LogInfo ''Creating aws vpc'',
        E_FS_Open ''assets/setup-hcp-vpc.tf'', E_os_Create ''/tmp/wd/setup-hcp-vpc.tf'',
        E_io_Copy ''/tmp/wd/setup-hcp-vpc.tf'' ''assets/setup-hcp-vpc.tf'',
        E_Close ''/tmp/wd/setup-hcp-vpc.tf'', E_Close ''assets/setup-hcp-vpc.tf'']
        @ [E_Init, E_Plan [Var ''aws_region=us-east-1'', Var ''cluster_name=c1''], E_Apply, E_Output,
        E_Uninstall]\<rparr>)"
proof -
  have ne: "''c1'' \<noteq> []" "''us-east-1'' \<noteq> []" "''/tmp/wd'' \<noteq> []"
    by simp_all
  note defs = mock_def provider0_def world0_def boom_def runner_ready_def template_copied_def
    region_and_name_def copy_events_def tagged_def
  have w0: "createHostedControlPlaneVPC (mock\<lparr>New_err := (\<lambda>d. Some boom)\<rparr>) provider0 ''c1'' ''us-east-1'' ''/tmp/wd'' world0 =
     ((None, Some (HcpVPCError ''create'' (Some (ErrorString
        ''failed to construct terraform runner: boom'')))),
      \<lparr>files = Map.empty, trace = [E_New ''/tmp/wd'']\<rparr>)"
    using create_step_failure_aborts [OF ne, where c = "mock\<lparr>New_err := (\<lambda>d. Some boom)\<rparr>" and r = provider0
        and w = world0 and content = "''resource vpc''" and e = boom]
    by (simp add: defs)
  have w1: "createHostedControlPlaneVPC (mock\<lparr>SetEnvVars_err := (\<lambda>m. Some boom)\<rparr>) provider0 ''c1'' ''us-east-1'' ''/tmp/wd'' world0 =
     ((None, Some (HcpVPCError ''create'' (Some (ErrorString
        ''failed to set terraform runner aws credentials (env vars): boom'')))),
      \<lparr>files = Map.empty, trace = [E_New ''/tmp/wd'', E_SetEnvVars (awsCredentials provider0)]\<rparr>)"
    using create_step_failure_aborts [OF ne, where c = "mock\<lparr>SetEnvVars_err := (\<lambda>m. Some boom)\<rparr>" and r = provider0
        and w = world0 and content = "''resource vpc''" and e = boom]
    by (simp add: defs)
  have w2: "createHostedControlPlaneVPC (mock\<lparr>FS_Open := (\<lambda>p. Inl boom)\<rparr>) provider0 ''c1'' ''us-east-1'' ''/tmp/wd'' world0 =
     ((None, Some (HcpVPCError ''create'' (Some (ErrorString
        ''failed to copy terraform file to working directory: error opening assets/setup-hcp-vpc.tf file: boom'')))),
      \<lparr>files = Map.empty, trace = [E_New ''/tmp/wd'', E_SetEnvVars (awsCredentials provider0), E_LogInfo ''Creating aws vpc'',
        E_FS_Open ''assets/setup-hcp-vpc.tf'', E_Uninstall]\<rparr>)"
    using create_step_failure_aborts [OF ne, where c = "mock\<lparr>FS_Open := (\<lambda>p. Inl boom)\<rparr>" and r = provider0
        and w = world0 and content = "''resource vpc''" and wc = "world0\<lparr>trace := [E_New ''/tmp/wd'', E_SetEnvVars (awsCredentials provider0),
          E_LogInfo ''Creating aws vpc'', E_FS_Open ''assets/setup-hcp-vpc.tf'']\<rparr>"
        and e = "Errorf_w (''error opening '' @ ''assets/setup-hcp-vpc.tf'' @ '' file: '') boom"]
    by (simp add: defs copyFile_def Errorf_w_def emit_def Let_def)
  have w3: "createHostedControlPlaneVPC (mock\<lparr>Init_err := Some boom\<rparr>) provider0 ''c1'' ''us-east-1'' ''/tmp/wd'' world0 =
     ((None, Some (HcpVPCError ''create'' (Some (ErrorString
        ''failed to perform terraform init: boom'')))),
      \<lparr>files = [''/tmp/wd/setup-hcp-vpc.tf'' \<mapsto> ''resource vpc''],
      trace = [E_New ''/tmp/wd'', E_SetEnvVars (awsCredentials provider0), E_LogInfo ''Creating aws vpc'',
        E_FS_Open ''assets/setup-hcp-vpc.tf'', E_os_Create ''/tmp/wd/setup-hcp-vpc.tf'',
        E_io_Copy ''/tmp/wd/setup-hcp-vpc.tf'' ''assets/setup-hcp-vpc.tf'',
        E_Close ''/tmp/wd/setup-hcp-vpc.tf'', E_Close ''assets/setup-hcp-vpc.tf'']
        @ [E_Init, E_Uninstall]\<rparr>)"
    using create_step_failure_aborts [OF ne, where c = "mock\<lparr>Init_err := Some boom\<rparr>" and r = provider0
        and w = world0 and content = "''resource vpc''" and e = boom]
    by (simp add: defs)
  have w4: "createHostedControlPlaneVPC (mock\<lparr>Plan_err := (\<lambda>vs. Some boom)\<rparr>) provider0 ''c1'' ''us-east-1'' ''/tmp/wd'' world0 =
     ((None, Some (HcpVPCError ''create'' (Some (ErrorString
        ''failed to perform terraform plan: boom'')))),
      \<lparr>files = [''/tmp/wd/setup-hcp-vpc.tf'' \<mapsto> ''resource vpc''],
      trace = [E_New ''/tmp/wd'', E_SetEnvVars (awsCredentials provider0), E_LogInfo ''Creating aws vpc'',
        E_FS_Open ''assets/setup-hcp-vpc.tf'', E_os_Create ''/tmp/wd/setup-hcp-vpc.tf'',
        E_io_Copy ''/tmp/wd/setup-hcp-vpc.tf'' ''assets/setup-hcp-vpc.tf'',
        E_Close ''/tmp/wd/setup-hcp-vpc.tf'', E_Close ''assets/setup-hcp-vpc.tf'']
        @ [E_Init, E_Plan [Var ''aws_region=us-east-1'', Var ''cluster_name=c1''], E_Uninstall]\<rparr>)"
    using create_step_failure_aborts [OF ne, where c = "mock\<lparr>Plan_err := (\<lambda>vs. Some boom)\<rparr>" and r = provider0
        and w = world0 and content = "''resource vpc''" and e = boom]
    by (simp add: defs)
  have w5: "createHostedControlPlaneVPC (mock\<lparr>Apply_err := Some boom\<rparr>) provider0 ''c1'' ''us-east-1'' ''/tmp/wd'' world0 =
     ((None, Some (HcpVPCError ''create'' (Some (ErrorString
        ''failed to perform terraform apply: boom'')))),
      \<lparr>files = [''/tmp/wd/setup-hcp-vpc.tf'' \<mapsto> ''resource vpc''],
      trace = [E_New ''/tmp/wd'', E_SetEnvVars (awsCredentials provider0), E_LogInfo ''Creating aws vpc'',
        E_FS_Open ''assets/setup-hcp-vpc.tf'', E_os_Create ''/tmp/wd/setup-hcp-vpc.tf'',
        E_io_Copy ''/tmp/wd/setup-hcp-vpc.tf'' ''assets/setup-hcp-vpc.tf'',
        E_Close ''/tmp/wd/setup-hcp-vpc.tf'', E_Close ''assets/setup-hcp-vpc.tf'']
        @ [E_Init, E_Plan [Var ''aws_region=us-east-1'', Var ''cluster_name=c1''], E_Apply, E_Uninstall]\<rparr>)"
    using create_step_failure_aborts [OF ne, where c = "mock\<lparr>Apply_err := Some boom\<rparr>" and r = provider0
        and w = world0 and content = "''resource vpc''" and e = boom]
    by (simp add: defs)
  have w6: "createHostedControlPlaneVPC (mock\<lparr>Output_res := (Map.empty, Some boom)\<rparr>) provider0 ''c1'' ''us-east-1'' ''/tmp/wd'' world0 =
     ((None, Some (HcpVPCError ''create'' (Some (ErrorString
        ''failed to perform terraform output: boom'')))),
      \<lparr>files = [''/tmp/wd/setup-hcp-vpc.tf'' \<mapsto> ''resource vpc''],
      trace = [E_New ''/tmp/wd'', E_SetEnvVars (awsCredentials provider0), E_LogInfo ''Creating aws vpc'',
        E_FS_Open ''assets/setup-hcp-vpc.tf'', E_os_Create ''/tmp/wd/setup-hcp-vpc.tf'',
        E_io_Copy ''/tmp/wd/setup-hcp-vpc.tf'' ''assets/setup-hcp-vpc.tf'',
        E_Close ''/tmp/wd/setup-hcp-vpc.tf'', E_Close ''assets/setup-hcp-vpc.tf'']
        @ [E_Init, E_Plan [Var ''aws_region=us-east-1'', Var ''cluster_name=c1''], E_Apply, E_Output,
        E_Uninstall]\<rparr>)"
    using create_step_failure_aborts [OF ne, where c = "mock\<lparr>Output_res := (Map.empty, Some boom)\<rparr>" and r = provider0
        and w = world0 and content = "''resource vpc''" and e = boom]
    by (simp add: defs)
  from w0 w1 w2 w3 w4 w5 w6 show ?thesis by (intro conjI)
qed


text \<open>
  Claim C6, as the code has it. When the parameters are non-empty and the runner is
  constructed and has taken the credentials, destroy calls init; when init succeeds it
  then calls the destroy step with exactly the two variables \<open>aws_region\<close> and
  \<open>cluster_name\<close>; when the destroy step fails, the error is the \<open>hcpVPCError\<close> with
  action \<open>delete\<close> whose cause carries the message of that failure, and nothing but
  the deferred uninstall follows.
\<close>

theorem destroy_runs_init_then_destroy:
  assumes "clusterName \<noteq> []" "awsRegion \<noteq> []" "workingDir \<noteq> []"
    and "runner_ready c r workingDir"
  shows
   "(Init_err c = Some e \<longrightarrow>
       deleteHostedControlPlaneVPC c r clusterName awsRegion workingDir w =
         (Some (tagged ''delete'' ''failed to perform terraform init: '' e),
          w\<lparr>trace := trace w @ [E_New workingDir, E_SetEnvVars (awsCredentials r),
                                E_LogInfo ''Deleting aws vpc'', E_Init, E_Uninstall]\<rparr>)) \<and>
    (Init_err c = None \<and>
     Destroy_err c [Var (''aws_region='' @ awsRegion), Var (''cluster_name='' @ clusterName)] = Some e \<longrightarrow>
       deleteHostedControlPlaneVPC c r clusterName awsRegion workingDir w =
         (Some (tagged ''delete'' ''failed to perform terraform destroy: '' e),
          w\<lparr>trace := trace w @ [E_New workingDir, E_SetEnvVars (awsCredentials r),
                                E_LogInfo ''Deleting aws vpc'', E_Init,
                                E_Destroy [Var (''aws_region='' @ awsRegion),
                                           Var (''cluster_name='' @ clusterName)],
                                E_Uninstall]\<rparr>)) \<and>
    (Init_err c = None \<and>
     Destroy_err c [Var (''aws_region='' @ awsRegion), Var (''cluster_name='' @ clusterName)] = None \<longrightarrow>
       deleteHostedControlPlaneVPC c r clusterName awsRegion workingDir w =
         (None,
          w\<lparr>trace := trace w @ [E_New workingDir, E_SetEnvVars (awsCredentials r),
                                E_LogInfo ''Deleting aws vpc'', E_Init,
                                E_Destroy [Var (''aws_region='' @ awsRegion),
                                           Var (''cluster_name='' @ clusterName)],
                                E_LogInfo ''AWS vpc deleted!'', E_Uninstall]\<rparr>))"
proof -
  have d: "deleteHostedControlPlaneVPC c r clusterName awsRegion workingDir w =
    (fst (delete_body c ''delete'' clusterName awsRegion workingDir
       (emit (E_SetEnvVars (awsCredentials r)) (emit (E_New workingDir) w))),
     emit E_Uninstall (snd (delete_body c ''delete'' clusterName awsRegion workingDir
       (emit (E_SetEnvVars (awsCredentials r)) (emit (E_New workingDir) w)))))"
    by (rule delete_after_ready [OF assms])
  show ?thesis
    unfolding d delete_body_cases
    by (simp add: Let_def emit_def region_and_name_def)
qed

text \<open>
  Claim C6 as it is stated fails: with non-empty parameters and a runner that cannot be
  constructed, destroy returns without calling init.
\<close>

theorem destroy_without_runner_skips_init:
  "E_Init \<notin> set (trace (snd (deleteHostedControlPlaneVPC (mock\<lparr>New_err := (\<lambda>d. Some boom)\<rparr>)
      provider0 ''c1'' ''us-east-1'' ''/tmp/wd'' world0)))"
  by (simp add: deleteHostedControlPlaneVPC_def mock_def world0_def emit_def Let_def)

theorem destroy_runs_init_then_destroy_witness:
  "''c1'' \<noteq> [] \<and> ''us-east-1'' \<noteq> [] \<and> ''/tmp/wd'' \<noteq> [] \<and>
   runner_ready (mock\<lparr>Destroy_err := (\<lambda>vs. Some boom)\<rparr>) provider0 ''/tmp/wd'' \<and>
   deleteHostedControlPlaneVPC (mock\<lparr>Destroy_err := (\<lambda>vs. Some boom)\<rparr>) provider0
       ''c1'' ''us-east-1'' ''/tmp/wd'' world0 =
     (Some (HcpVPCError ''delete'' (Some (ErrorString ''failed to perform terraform destroy: boom''))),
      \<lparr>files = Map.empty,
       trace = [E_New ''/tmp/wd'', E_SetEnvVars (awsCredentials provider0),
                E_LogInfo ''Deleting aws vpc'', E_Init,
                E_Destroy [Var ''aws_region=us-east-1'', Var ''cluster_name=c1''], E_Uninstall]\<rparr>) \<and>
   deleteHostedControlPlaneVPC mock provider0 ''c1'' ''us-east-1'' ''/tmp/wd'' world0 =
     (None,
      \<lparr>files = Map.empty,
       trace = [E_New ''/tmp/wd'', E_SetEnvVars (awsCredentials provider0),
                E_LogInfo ''Deleting aws vpc'', E_Init,
                E_Destroy [Var ''aws_region=us-east-1'', Var ''cluster_name=c1''],
                E_LogInfo ''AWS vpc deleted!'', E_Uninstall]\<rparr>) \<and>
   deleteHostedControlPlaneVPC (mock\<lparr>Init_err := Some boom\<rparr>) provider0
       ''c1'' ''us-east-1'' ''/tmp/wd'' world0 =
     (Some (HcpVPCError ''delete'' (Some (ErrorString ''failed to perform terraform init: boom''))),
      \<lparr>files = Map.empty,
       trace = [E_New ''/tmp/wd'', E_SetEnvVars (awsCredentials provider0),
                E_LogInfo ''Deleting aws vpc'', E_Init, E_Uninstall]\<rparr>)"
proof -
  have ne: "''c1'' \<noteq> []" "''us-east-1'' \<noteq> []" "''/tmp/wd'' \<noteq> []"
    by simp_all
  have r1: "runner_ready (mock\<lparr>Destroy_err := (\<lambda>vs. Some boom)\<rparr>) provider0 ''/tmp/wd''"
    and r2: "runner_ready mock provider0 ''/tmp/wd''"
    and r3: "runner_ready (mock\<lparr>Init_err := Some boom\<rparr>) provider0 ''/tmp/wd''"
    by (simp_all add: runner_ready_def mock_def)
  show ?thesis
    using destroy_runs_init_then_destroy [OF ne r1, where e = boom and w = world0]
      destroy_runs_init_then_destroy [OF ne r2, where e = boom and w = world0]
      destroy_runs_init_then_destroy [OF ne r3, where e = boom and w = world0]
      r1
    by (simp add: mock_def provider0_def world0_def boom_def tagged_def)
qed

end
